theory Spec2Isabelle
  imports Complex_Main
begin

section \<open>Python values, exceptions and string helpers\<close>

text \<open>
  The value tree that \<^verbatim>\<open>json.load\<close> returns and \<^verbatim>\<open>json.dump\<close> receives: \<^verbatim>\<open>None\<close>,
  \<^verbatim>\<open>bool\<close>, \<^verbatim>\<open>int\<close> (unbounded), \<^verbatim>\<open>float\<close>, \<^verbatim>\<open>str\<close>, \<^verbatim>\<open>list\<close> and \<^verbatim>\<open>dict\<close> with
  string keys. A dict is an association list in insertion order, read with
  \<open>map_of\<close>. A float is taken as the real number it denotes; no arithmetic is
  done on floats anywhere in the program.
\<close>

datatype json =
    JNull
  | JBool bool
  | JInt int
  | JFloat real
  | JStr string
  | JList "json list"
  | JObj "(string \<times> json) list"

text \<open>The exceptions that the modelled code can raise.\<close>

datatype error =
    FileNotFoundError string
  | JSONDecodeError
  | KeyError string
  | TypeError

text \<open>Sequencing of a computation that may raise: the first exception wins.\<close>

definition and_then :: "error + 'a \<Rightarrow> ('a \<Rightarrow> error + 'b) \<Rightarrow> error + 'b" where
  "and_then m f = (case m of Inl e \<Rightarrow> Inl e | Inr x \<Rightarrow> f x)"

text \<open>
  \<^verbatim>\<open>d[k]\<close> with a string key \<open>k\<close>: a dict raises \<^verbatim>\<open>KeyError\<close> on a missing
  key; a list or a string raises \<^verbatim>\<open>TypeError\<close> (their indices must be
  integers); the other values are not subscriptable.
\<close>

fun getitem :: "json \<Rightarrow> string \<Rightarrow> error + json" where
  "getitem (JObj kvs) k = (case map_of kvs k of None \<Rightarrow> Inl (KeyError k) | Some v \<Rightarrow> Inr v)"
| "getitem _ k = Inl TypeError"

text \<open>
  The elements that \<^verbatim>\<open>for x in v\<close> visits: the items of a list, the
  one-character strings of a string, the keys of a dict; the other values are
  not iterable.
\<close>

fun iter :: "json \<Rightarrow> error + json list" where
  "iter (JList xs) = Inr xs"
| "iter (JStr s) = Inr (map (\<lambda>c. JStr [c]) s)"
| "iter (JObj kvs) = Inr (map (\<lambda>kv. JStr (fst kv)) kvs)"
| "iter _ = Inl TypeError"

text \<open>
  The program's classes annotate their fields (\<^verbatim>\<open>name: str\<close>, \<^verbatim>\<open>age: int\<close>,
  \<^verbatim>\<open>wingspan: float\<close>, ...) and the records below have those types. Python
  does not check annotations: loading a document stores whatever value the
  document holds. \<open>Typed x\<close> is an object all of whose fields have their
  annotated types, \<open>Untyped\<close> an object that exists in Python but has some
  field outside its annotation; building one raises nothing.
\<close>

datatype 'a obj = Typed 'a | Untyped

fun ap :: "('a \<Rightarrow> 'b) obj \<Rightarrow> 'a obj \<Rightarrow> 'b obj" where
  "ap (Typed f) (Typed x) = Typed (f x)"
| "ap _ _ = Untyped"

fun as_str :: "json \<Rightarrow> string obj" where
  "as_str (JStr s) = Typed s"
| "as_str _ = Untyped"

fun as_int :: "json \<Rightarrow> int obj" where
  "as_int (JInt i) = Typed i"
| "as_int _ = Untyped"

fun as_float :: "json \<Rightarrow> real obj" where
  "as_float (JFloat r) = Typed r"
| "as_float _ = Untyped"

fun as_bool :: "json \<Rightarrow> bool obj" where
  "as_bool (JBool b) = Typed b"
| "as_bool _ = Untyped"

text \<open>\<^verbatim>\<open>str(n)\<close> for an integer, as an f-string renders it: decimal digits, a minus sign first when negative.\<close>

fun str_nat :: "nat \<Rightarrow> string" where
  "str_nat n =
     (if n < 10 then [''0123456789'' ! n]
      else str_nat (n div 10) @ [''0123456789'' ! (n mod 10)])"

declare str_nat.simps [simp del]

definition str_int :: "int \<Rightarrow> string" where
  "str_int i = (if i < 0 then ''-'' @ str_nat (nat (- i)) else str_nat (nat i))"

text \<open>\<^verbatim>\<open>sep.join(xs)\<close>.\<close>

fun join :: "string \<Rightarrow> string list \<Rightarrow> string" where
  "join sep [] = []"
| "join sep [x] = x"
| "join sep (x # y # ys) = x @ sep @ join sep (y # ys)"

definition NL :: string where
  "NL = [CHR 0x0A]"

section \<open>Animals\<close>

text \<open>
  The three subclasses of \<^verbatim>\<open>Animal\<close>, each with the field it adds:
  \<^verbatim>\<open>wingspan\<close>, \<^verbatim>\<open>fur_color\<close>, \<^verbatim>\<open>is_venomous\<close>. The methods \<^verbatim>\<open>fly\<close>,
  \<^verbatim>\<open>run\<close>, \<^verbatim>\<open>crawl\<close> and \<^verbatim>\<open>work\<close> only format a string, change nothing and
  are called by nothing modelled here; they are left out.
\<close>

datatype animal_class = Bird real | Mammal string | Reptile bool

record animal =
  name :: string
  age :: int
  species :: string
  health :: int
  hunger :: int
  cls :: animal_class

text \<open>\<^verbatim>\<open>Animal.__init__\<close>, then the subclass constructors that call it and set their own field.\<close>

definition Animal_init :: "string \<Rightarrow> int \<Rightarrow> string \<Rightarrow> animal_class \<Rightarrow> animal" where
  "Animal_init n a s c =
     \<lparr>name = n, age = a, species = s, health = 100, hunger = 0, cls = c\<rparr>"

definition Bird_init :: "string \<Rightarrow> int \<Rightarrow> string \<Rightarrow> real \<Rightarrow> animal" where
  "Bird_init n a s wingspan = Animal_init n a s (Bird wingspan)"

definition Mammal_init :: "string \<Rightarrow> int \<Rightarrow> string \<Rightarrow> string \<Rightarrow> animal" where
  "Mammal_init n a s fur_color = Animal_init n a s (Mammal fur_color)"

definition Reptile_init :: "string \<Rightarrow> int \<Rightarrow> string \<Rightarrow> bool \<Rightarrow> animal" where
  "Reptile_init n a s is_venomous = Animal_init n a s (Reptile is_venomous)"

text \<open>\<^verbatim>\<open>self.__class__.__name__\<close>.\<close>

fun animal_class_name :: "animal_class \<Rightarrow> string" where
  "animal_class_name (Bird _) = ''Bird''"
| "animal_class_name (Mammal _) = ''Mammal''"
| "animal_class_name (Reptile _) = ''Reptile''"

definition make_sound :: "animal \<Rightarrow> string" where
  "make_sound self =
     (case cls self of
        Bird _ \<Rightarrow> name self @ '' chirps: Tweet tweet!''
      | Mammal _ \<Rightarrow> name self @ '' roars: Roar!''
      | Reptile _ \<Rightarrow> name self @ '' hisses: Hiss!'')"

text \<open>\<^verbatim>\<open>Animal.eat\<close>: the returned string and the receiver after the call.\<close>

definition eat :: "animal \<Rightarrow> int \<Rightarrow> string \<times> animal" where
  "eat self food_amount =
     (let self = self\<lparr>hunger := max 0 (hunger self - food_amount)\<rparr>
      in (name self @ '' has eaten. Hunger level: '' @ str_int (hunger self), self))"

text \<open>\<^verbatim>\<open>to_dict\<close>: the base class's entries, then the subclass's own entry.\<close>

definition Animal_to_dict :: "animal \<Rightarrow> (string \<times> json) list" where
  "Animal_to_dict self =
     [(''type'', JStr (animal_class_name (cls self))),
      (''name'', JStr (name self)),
      (''age'', JInt (age self)),
      (''species'', JStr (species self)),
      (''health'', JInt (health self)),
      (''hunger'', JInt (hunger self))]"

definition animal_to_dict :: "animal \<Rightarrow> (string \<times> json) list" where
  "animal_to_dict self =
     (let data = Animal_to_dict self in
      case cls self of
        Bird wingspan \<Rightarrow> data @ [(''wingspan'', JFloat wingspan)]
      | Mammal fur_color \<Rightarrow> data @ [(''fur_color'', JStr fur_color)]
      | Reptile is_venomous \<Rightarrow> data @ [(''is_venomous'', JBool is_venomous)])"

section \<open>Employees\<close>

datatype employee_class = ZooKeeper | Veterinarian

record employee =
  emp_name :: string
  id_number :: string
  specialization :: string
  role :: employee_class

definition Employee_init :: "string \<Rightarrow> string \<Rightarrow> string \<Rightarrow> employee_class \<Rightarrow> employee" where
  "Employee_init n i s c = \<lparr>emp_name = n, id_number = i, specialization = s, role = c\<rparr>"

definition ZooKeeper_init :: "string \<Rightarrow> string \<Rightarrow> string \<Rightarrow> employee" where
  "ZooKeeper_init n i s = Employee_init n i s ZooKeeper"

definition Veterinarian_init :: "string \<Rightarrow> string \<Rightarrow> string \<Rightarrow> employee" where
  "Veterinarian_init n i s = Employee_init n i s Veterinarian"

fun employee_class_name :: "employee_class \<Rightarrow> string" where
  "employee_class_name ZooKeeper = ''ZooKeeper''"
| "employee_class_name Veterinarian = ''Veterinarian''"

definition employee_to_dict :: "employee \<Rightarrow> (string \<times> json) list" where
  "employee_to_dict self =
     [(''type'', JStr (employee_class_name (role self))),
      (''name'', JStr (emp_name self)),
      (''id_number'', JStr (id_number self)),
      (''specialization'', JStr (specialization self))]"

text \<open>\<^verbatim>\<open>ZooKeeper.feed_animal\<close>: the returned string and the animal after the call.\<close>

definition feed_animal :: "employee \<Rightarrow> animal \<Rightarrow> int \<Rightarrow> string \<times> animal" where
  "feed_animal self animal food_amount =
     (let (result, animal) = eat animal food_amount
      in (''Zookeeper '' @ emp_name self @ '' fed '' @ name animal @ ''. '' @ result, animal))"

text \<open>\<^verbatim>\<open>Veterinarian.heal_animal\<close>: the returned string and the animal after the call.\<close>

definition heal_animal :: "employee \<Rightarrow> animal \<Rightarrow> string \<times> animal" where
  "heal_animal self animal =
     (if health animal < 100 then
        let animal = animal\<lparr>health := min 100 (health animal + 20)\<rparr>
        in (''Veterinarian '' @ emp_name self @ '' treated '' @ name animal
              @ ''. Health now: '' @ str_int (health animal), animal)
      else (name animal @ '' is already healthy'', animal))"

section \<open>The zoo\<close>

record zoo =
  zoo_name :: string
  animals :: "animal list"
  employees :: "employee list"
  founded_date :: string

text \<open>
  \<^verbatim>\<open>Zoo.__init__\<close>. The clock is read here; \<open>now\<close> is what
  \<^verbatim>\<open>datetime.now().strftime("%Y-%m-%d")\<close> returns at the call.
\<close>

definition Zoo_init :: "string \<Rightarrow> string \<Rightarrow> zoo" where
  "Zoo_init now n = \<lparr>zoo_name = n, animals = [], employees = [], founded_date = now\<rparr>"

definition add_animal :: "zoo \<Rightarrow> animal \<Rightarrow> zoo" where
  "add_animal self animal = self\<lparr>animals := animals self @ [animal]\<rparr>"

definition add_employee :: "zoo \<Rightarrow> employee \<Rightarrow> zoo" where
  "add_employee self employee = self\<lparr>employees := employees self @ [employee]\<rparr>"

definition list_animals :: "zoo \<Rightarrow> string" where
  "list_animals self =
     join NL (map (\<lambda>animal. species animal @ '' '' @ name animal) (animals self))"

definition list_employees :: "zoo \<Rightarrow> string" where
  "list_employees self =
     join NL (map (\<lambda>employee. employee_class_name (role employee) @ '' '' @ emp_name employee)
                  (employees self))"

definition animal_sounds :: "zoo \<Rightarrow> string" where
  "animal_sounds self = join NL (map make_sound (animals self))"

section \<open>Files\<close>

text \<open>
  A file holds either text that \<^verbatim>\<open>json.load\<close> parses to a value, or text it
  rejects. \<^verbatim>\<open>json.dump\<close> followed by \<^verbatim>\<open>json.load\<close> returns the value tree
  that was dumped; that contract of the library is what \<open>Doc\<close> stands for.
  What \<^verbatim>\<open>json.dump\<close> writes is taken to be in the file when \<^verbatim>\<open>save_to_file\<close>
  returns.
  \<open>handles\<close> lists the files that the program has opened and not closed by a
  statement of its own (\<^verbatim>\<open>close()\<close> or the exit of a \<^verbatim>\<open>with\<close> block); what
  the interpreter's finaliser does later with an unreferenced file object is
  not part of it.
\<close>

datatype content = Doc json | Garbage

record filesystem =
  files :: "string \<Rightarrow> content option"
  handles :: "string list"

text \<open>\<^verbatim>\<open>open(filename, 'r')\<close> and \<^verbatim>\<open>open(filename, 'w')\<close>; writing truncates.\<close>

definition open_r :: "string \<Rightarrow> filesystem \<Rightarrow> error + filesystem" where
  "open_r filename fs =
     (case files fs filename of
        None \<Rightarrow> Inl (FileNotFoundError filename)
      | Some _ \<Rightarrow> Inr (fs\<lparr>handles := filename # handles fs\<rparr>))"

definition open_w :: "string \<Rightarrow> filesystem \<Rightarrow> filesystem" where
  "open_w filename fs =
     fs\<lparr>files := (files fs)(filename \<mapsto> Garbage), handles := filename # handles fs\<rparr>"

definition close_file :: "string \<Rightarrow> filesystem \<Rightarrow> filesystem" where
  "close_file filename fs = fs\<lparr>handles := remove1 filename (handles fs)\<rparr>"

definition json_load :: "string \<Rightarrow> filesystem \<Rightarrow> error + json" where
  "json_load filename fs =
     (case files fs filename of Some (Doc d) \<Rightarrow> Inr d | _ \<Rightarrow> Inl JSONDecodeError)"

definition json_dump :: "json \<Rightarrow> string \<Rightarrow> filesystem \<Rightarrow> filesystem" where
  "json_dump data filename fs = fs\<lparr>files := (files fs)(filename \<mapsto> Doc data)\<rparr>"

section \<open>Persistence\<close>

text \<open>
  \<^verbatim>\<open>Zoo.save_to_file\<close>: the document is built, the file is opened inline as
  the argument of \<^verbatim>\<open>json.dump\<close>, and the function returns; it has no
  \<^verbatim>\<open>with\<close> and no \<^verbatim>\<open>close()\<close>.
\<close>

definition zoo_data :: "zoo \<Rightarrow> json" where
  "zoo_data self =
     JObj [(''name'', JStr (zoo_name self)),
           (''founded_date'', JStr (founded_date self)),
           (''animals'', JList (map (\<lambda>animal. JObj (animal_to_dict animal)) (animals self))),
           (''employees'', JList (map (\<lambda>employee. JObj (employee_to_dict employee)) (employees self)))]"

definition save_to_file :: "zoo \<Rightarrow> string \<Rightarrow> filesystem \<Rightarrow> filesystem" where
  "save_to_file self filename fs =
     (let data = zoo_data self;
          fs = open_w filename fs
      in json_dump data filename fs)"

text \<open>
  The body of the animals loop of \<^verbatim>\<open>Zoo.load_from_file\<close>, in two parts. First
  the \<^verbatim>\<open>if/elif\<close> chain on the tag: \<open>None\<close> is the \<^verbatim>\<open>None\<close> that \<^verbatim>\<open>animal\<close> keeps
  when no tag matches. The arguments of a constructor are read left to right
  before it is called.
\<close>

definition construct_animal :: "json \<Rightarrow> error + animal obj option" where
  "construct_animal animal_data =
     and_then (getitem animal_data ''type'') (\<lambda>t.
       if t = JStr ''Bird'' then
         and_then (getitem animal_data ''name'') (\<lambda>n.
         and_then (getitem animal_data ''age'') (\<lambda>a.
         and_then (getitem animal_data ''species'') (\<lambda>s.
         and_then (getitem animal_data ''wingspan'') (\<lambda>w.
           Inr (Some (ap (ap (ap (ap (Typed Bird_init) (as_str n)) (as_int a)) (as_str s))
                         (as_float w)))))))
       else if t = JStr ''Mammal'' then
         and_then (getitem animal_data ''name'') (\<lambda>n.
         and_then (getitem animal_data ''age'') (\<lambda>a.
         and_then (getitem animal_data ''species'') (\<lambda>s.
         and_then (getitem animal_data ''fur_color'') (\<lambda>w.
           Inr (Some (ap (ap (ap (ap (Typed Mammal_init) (as_str n)) (as_int a)) (as_str s))
                         (as_str w)))))))
       else if t = JStr ''Reptile'' then
         and_then (getitem animal_data ''name'') (\<lambda>n.
         and_then (getitem animal_data ''age'') (\<lambda>a.
         and_then (getitem animal_data ''species'') (\<lambda>s.
         and_then (getitem animal_data ''is_venomous'') (\<lambda>w.
           Inr (Some (ap (ap (ap (ap (Typed Reptile_init) (as_str n)) (as_int a)) (as_str s))
                         (as_bool w)))))))
       else Inr None)"

text \<open>
  Then the overlay: when an animal was constructed its \<^verbatim>\<open>health\<close> and
  \<^verbatim>\<open>hunger\<close> are overwritten with the document's values, unchecked. The
  classes define neither \<^verbatim>\<open>__bool__\<close> nor \<^verbatim>\<open>__len__\<close>, so \<^verbatim>\<open>if animal:\<close>
  is false for \<^verbatim>\<open>None\<close> only.
\<close>

definition load_animal :: "json \<Rightarrow> error + animal obj option" where
  "load_animal animal_data =
     and_then (construct_animal animal_data) (\<lambda>animal.
       case animal of
         None \<Rightarrow> Inr None
       | Some animal \<Rightarrow>
           and_then (getitem animal_data ''health'') (\<lambda>h.
           let animal = ap (ap (Typed (\<lambda>an v. an\<lparr>health := v\<rparr>)) animal) (as_int h) in
           and_then (getitem animal_data ''hunger'') (\<lambda>g.
           let animal = ap (ap (Typed (\<lambda>an v. an\<lparr>hunger := v\<rparr>)) animal) (as_int g) in
           Inr (Some animal))))"

fun load_animals :: "json list \<Rightarrow> zoo obj \<Rightarrow> error + zoo obj" where
  "load_animals [] zoo = Inr zoo"
| "load_animals (animal_data # rest) zoo =
     (case load_animal animal_data of
        Inl e \<Rightarrow> Inl e
      | Inr None \<Rightarrow> load_animals rest zoo
      | Inr (Some animal) \<Rightarrow> load_animals rest (ap (ap (Typed add_animal) zoo) animal))"

text \<open>The body of the employees loop, and the loop.\<close>

definition load_employee :: "json \<Rightarrow> error + employee obj option" where
  "load_employee employee_data =
     and_then (getitem employee_data ''type'') (\<lambda>t.
       if t = JStr ''ZooKeeper'' then
         and_then (getitem employee_data ''name'') (\<lambda>n.
         and_then (getitem employee_data ''id_number'') (\<lambda>i.
         and_then (getitem employee_data ''specialization'') (\<lambda>s.
           Inr (Some (ap (ap (ap (Typed ZooKeeper_init) (as_str n)) (as_str i)) (as_str s))))))
       else if t = JStr ''Veterinarian'' then
         and_then (getitem employee_data ''name'') (\<lambda>n.
         and_then (getitem employee_data ''id_number'') (\<lambda>i.
         and_then (getitem employee_data ''specialization'') (\<lambda>s.
           Inr (Some (ap (ap (ap (Typed Veterinarian_init) (as_str n)) (as_str i)) (as_str s))))))
       else Inr None)"

fun load_employees :: "json list \<Rightarrow> zoo obj \<Rightarrow> error + zoo obj" where
  "load_employees [] zoo = Inr zoo"
| "load_employees (employee_data # rest) zoo =
     (case load_employee employee_data of
        Inl e \<Rightarrow> Inl e
      | Inr None \<Rightarrow> load_employees rest zoo
      | Inr (Some employee) \<Rightarrow> load_employees rest (ap (ap (Typed add_employee) zoo) employee))"

text \<open>
  The part of \<^verbatim>\<open>Zoo.load_from_file\<close> after the \<^verbatim>\<open>with\<close> block: a fresh zoo is
  constructed (reading the clock), its \<^verbatim>\<open>founded_date\<close> is overwritten, then
  the two loops run, each reading its key of the document when it starts.
\<close>

definition zoo_from_data :: "string \<Rightarrow> json \<Rightarrow> error + zoo obj" where
  "zoo_from_data now data =
     and_then (getitem data ''name'') (\<lambda>n.
     let zoo = ap (Typed (Zoo_init now)) (as_str n) in
     and_then (getitem data ''founded_date'') (\<lambda>d.
     let zoo = ap (ap (Typed (\<lambda>z v. z\<lparr>founded_date := v\<rparr>)) zoo) (as_str d) in
     and_then (getitem data ''animals'') (\<lambda>xs.
     and_then (iter xs) (\<lambda>animal_records.
     and_then (load_animals animal_records zoo) (\<lambda>zoo.
     and_then (getitem data ''employees'') (\<lambda>ys.
     and_then (iter ys) (\<lambda>employee_records.
     load_employees employee_records zoo)))))))"

text \<open>
  \<^verbatim>\<open>Zoo.load_from_file\<close>: the \<^verbatim>\<open>with\<close> block opens the file, parses it and
  closes it whether or not parsing raised; a missing file raises before
  anything is opened.
\<close>

definition load_from_file :: "string \<Rightarrow> string \<Rightarrow> filesystem \<Rightarrow> (error + zoo obj) \<times> filesystem" where
  "load_from_file now filename fs =
     (case open_r filename fs of
        Inl e \<Rightarrow> (Inl e, fs)
      | Inr fs \<Rightarrow>
          let data = json_load filename fs;
              fs = close_file filename fs
          in (and_then data (zoo_from_data now), fs))"

section \<open>Documents: the predicates used to state the properties\<close>

text \<open>The tags that each loop of \<^verbatim>\<open>load_from_file\<close> compares a record's \<^verbatim>\<open>"type"\<close> with.\<close>

definition animal_tags :: "string list" where
  "animal_tags = [''Bird'', ''Mammal'', ''Reptile'']"

definition employee_tags :: "string list" where
  "employee_tags = [''ZooKeeper'', ''Veterinarian'']"

text \<open>
  The keys that \<^verbatim>\<open>load_from_file\<close> reads from a record once its tag has
  matched, in the order it reads them.
\<close>

definition animal_keys :: "string \<Rightarrow> string list" where
  "animal_keys t =
     [''name'', ''age'', ''species'']
     @ (if t = ''Bird'' then [''wingspan'']
        else if t = ''Mammal'' then [''fur_color'']
        else if t = ''Reptile'' then [''is_venomous'']
        else [])
     @ [''health'', ''hunger'']"

definition employee_keys :: "string list" where
  "employee_keys = [''name'', ''id_number'', ''specialization'']"

text \<open>A record that carries a tag, and the tag is none of \<open>tags\<close>.\<close>

definition unknown_tag :: "string list \<Rightarrow> json \<Rightarrow> bool" where
  "unknown_tag tags r =
     (case getitem r ''type'' of
        Inr (JStr t) \<Rightarrow> t \<notin> set tags
      | Inr _ \<Rightarrow> True
      | Inl _ \<Rightarrow> False)"

text \<open>The key \<open>k\<close> is absent from the dict \<open>r\<close>.\<close>

definition missing_key :: "json \<Rightarrow> string \<Rightarrow> bool" where
  "missing_key r k = (getitem r k = Inl (KeyError k))"

text \<open>A record whose tag is one of the known ones and that lacks a key read under that tag.\<close>

definition malformed_animal_record :: "json \<Rightarrow> bool" where
  "malformed_animal_record r =
     (case getitem r ''type'' of
        Inr (JStr t) \<Rightarrow> t \<in> set animal_tags \<and> list_ex (missing_key r) (animal_keys t)
      | _ \<Rightarrow> False)"

definition malformed_employee_record :: "json \<Rightarrow> bool" where
  "malformed_employee_record r =
     (case getitem r ''type'' of
        Inr (JStr t) \<Rightarrow> t \<in> set employee_tags \<and> list_ex (missing_key r) employee_keys
      | _ \<Rightarrow> False)"

text \<open>
  A record of the persisted format: a known tag, and every key of that tag
  present with a value of the type the format gives it.
\<close>

fun is_str :: "json \<Rightarrow> bool" where
  "is_str (JStr _) = True"
| "is_str _ = False"

fun is_int :: "json \<Rightarrow> bool" where
  "is_int (JInt _) = True"
| "is_int _ = False"

fun is_float :: "json \<Rightarrow> bool" where
  "is_float (JFloat _) = True"
| "is_float _ = False"

fun is_bool :: "json \<Rightarrow> bool" where
  "is_bool (JBool _) = True"
| "is_bool _ = False"

definition field_is :: "(json \<Rightarrow> bool) \<Rightarrow> json \<Rightarrow> string \<Rightarrow> bool" where
  "field_is p r k = (case getitem r k of Inr v \<Rightarrow> p v | Inl _ \<Rightarrow> False)"

definition valid_animal_record :: "json \<Rightarrow> bool" where
  "valid_animal_record r =
     (field_is is_str r ''name'' \<and> field_is is_int r ''age'' \<and> field_is is_str r ''species''
      \<and> field_is is_int r ''health'' \<and> field_is is_int r ''hunger''
      \<and> (getitem r ''type'' = Inr (JStr ''Bird'') \<and> field_is is_float r ''wingspan''
         \<or> getitem r ''type'' = Inr (JStr ''Mammal'') \<and> field_is is_str r ''fur_color''
         \<or> getitem r ''type'' = Inr (JStr ''Reptile'') \<and> field_is is_bool r ''is_venomous''))"

definition valid_employee_record :: "json \<Rightarrow> bool" where
  "valid_employee_record r =
     (field_is is_str r ''name'' \<and> field_is is_str r ''id_number''
      \<and> field_is is_str r ''specialization''
      \<and> (getitem r ''type'' = Inr (JStr ''ZooKeeper'')
         \<or> getitem r ''type'' = Inr (JStr ''Veterinarian'')))"

text \<open>The record \<open>r\<close> holds every entry of the dict \<open>d\<close>.\<close>

definition holds_fields :: "(string \<times> json) list \<Rightarrow> json \<Rightarrow> bool" where
  "holds_fields d r = list_all (\<lambda>kv. getitem r (fst kv) = Inr (snd kv)) d"

text \<open>The bounds on an animal's mutable state, and the same bounds on a record's values.\<close>

definition animal_inv :: "animal \<Rightarrow> bool" where
  "animal_inv a = (0 \<le> health a \<and> health a \<le> 100 \<and> 0 \<le> hunger a)"

definition record_inv :: "json \<Rightarrow> bool" where
  "record_inv r =
     ((case getitem r ''health'' of Inr (JInt h) \<Rightarrow> 0 \<le> h \<and> h \<le> 100 | _ \<Rightarrow> True)
      \<and> (case getitem r ''hunger'' of Inr (JInt g) \<Rightarrow> 0 \<le> g | _ \<Rightarrow> True))"

section \<open>Helper lemmas\<close>

lemma join_snoc: "join sep (xs @ [x]) = (if xs = [] then x else join sep xs @ sep @ x)"
  by (induction sep xs rule: join.induct) auto

lemma animals_foldl_add_animal: "animals (foldl add_animal z xs) = animals z @ xs"
  by (induction xs arbitrary: z) (simp_all add: add_animal_def)

lemma employees_foldl_add_employee: "employees (foldl add_employee z xs) = employees z @ xs"
  by (induction xs arbitrary: z) (simp_all add: add_employee_def)

lemma digit_inj: "n < 10 \<Longrightarrow> m < 10 \<Longrightarrow> ''0123456789'' ! n = ''0123456789'' ! m \<Longrightarrow> n = (m::nat)"
proof -
  have d: "distinct ''0123456789''" by simp
  assume "n < 10" "m < 10" "''0123456789'' ! n = ''0123456789'' ! m"
  with d show ?thesis by (simp add: nth_eq_iff_index_eq)
qed

lemma str_nat_nonempty: "str_nat n \<noteq> []"
  by (subst str_nat.simps) simp

lemma str_nat_digits: "set (str_nat n) \<subseteq> set ''0123456789''"
proof (induction n rule: str_nat.induct)
  case (1 n)
  have "''0123456789'' ! k \<in> set ''0123456789''" if "k < 10" for k
    using that by (intro nth_mem) simp
  then have m: "''0123456789'' ! (n mod 10) \<in> set ''0123456789''"
    and l: "n < 10 \<Longrightarrow> ''0123456789'' ! n \<in> set ''0123456789''" by simp_all
  show ?case
  proof (cases "n < 10")
    case True
    with l show ?thesis by (subst str_nat.simps) simp
  next
    case False
    with "1.IH" m show ?thesis by (subst str_nat.simps) simp
  qed
qed

lemma str_nat_inj: "str_nat n = str_nat m \<Longrightarrow> n = m"
proof (induction n arbitrary: m rule: str_nat.induct)
  case (1 n)
  show ?case
  proof (cases "n < 10")
    case n: True
    show ?thesis
    proof (cases "m < 10")
      case True
      with n "1.prems" show ?thesis
        by (simp add: str_nat.simps [of n] str_nat.simps [of m] digit_inj)
    next
      case False
      with n "1.prems" str_nat_nonempty [of "m div 10"] show ?thesis
        by (simp add: str_nat.simps [of n] str_nat.simps [of m])
    qed
  next
    case n: False
    show ?thesis
    proof (cases "m < 10")
      case True
      with n "1.prems" str_nat_nonempty [of "n div 10"] show ?thesis
        by (simp add: str_nat.simps [of n] str_nat.simps [of m])
    next
      case False
      with n "1.prems" have "str_nat (n div 10) = str_nat (m div 10)"
        and "''0123456789'' ! (n mod 10) = ''0123456789'' ! (m mod 10)"
        by (simp_all add: str_nat.simps [of n] str_nat.simps [of m])
      with "1.IH" [OF n] have "n div 10 = m div 10" "n mod 10 = m mod 10"
        by (simp_all add: digit_inj)
      then show ?thesis by (metis div_mult_mod_eq)
    qed
  qed
qed

lemma str_int_inj: "str_int i = str_int j \<Longrightarrow> i = j"
proof -
  assume eq: "str_int i = str_int j"
  have nd: "CHR ''-'' \<notin> set (str_nat k)" for k
    using str_nat_digits [of k] by auto
  have hd: "hd (str_nat k) \<noteq> CHR ''-''" for k
    using nd [of k] str_nat_nonempty [of k] by (metis hd_in_set)
  show ?thesis
  proof (cases "i < 0"; cases "j < 0")
    assume "i < 0" "j < 0"
    with eq have "nat (- i) = nat (- j)" by (simp add: str_int_def str_nat_inj)
    with \<open>i < 0\<close> \<open>j < 0\<close> show ?thesis by simp
  next
    assume "i < 0" "\<not> j < 0"
    with eq have "CHR ''-'' # str_nat (nat (- i)) = str_nat (nat j)" by (simp add: str_int_def)
    with hd [of "nat j"] show ?thesis by (metis list.sel(1))
  next
    assume "\<not> i < 0" "j < 0"
    with eq have "CHR ''-'' # str_nat (nat (- j)) = str_nat (nat i)" by (simp add: str_int_def)
    with hd [of "nat i"] show ?thesis by (metis list.sel(1))
  next
    assume "\<not> i < 0" "\<not> j < 0"
    with eq have "nat i = nat j" by (simp add: str_int_def str_nat_inj)
    with \<open>\<not> i < 0\<close> \<open>\<not> j < 0\<close> show ?thesis by simp
  qed
qed

lemma heal_animal_healthy:
  "health a = 100 \<Longrightarrow> heal_animal v a = (name a @ '' is already healthy'', a)"
  by (simp add: heal_animal_def)

lemma heal_animal_healthy_funpow:
  "health a = 100 \<Longrightarrow> ((\<lambda>x. snd (heal_animal v x)) ^^ k) a = a"
  by (induction k) (simp_all add: heal_animal_healthy)

lemma load_animal_to_dict: "load_animal (JObj (animal_to_dict a)) = Inr (Some (Typed a))"
  by (cases "cls a")
     (simp_all add: load_animal_def construct_animal_def and_then_def animal_to_dict_def
        Animal_to_dict_def Bird_init_def Mammal_init_def Reptile_init_def Animal_init_def)

lemma load_employee_to_dict: "load_employee (JObj (employee_to_dict e)) = Inr (Some (Typed e))"
  by (cases "role e")
     (simp_all add: load_employee_def and_then_def employee_to_dict_def
        ZooKeeper_init_def Veterinarian_init_def Employee_init_def)

lemma load_animals_to_dict:
  "load_animals (map (\<lambda>a. JObj (animal_to_dict a)) xs) (Typed z)
     = Inr (Typed (z\<lparr>animals := animals z @ xs\<rparr>))"
  by (induction xs arbitrary: z) (simp_all add: load_animal_to_dict add_animal_def)

lemma load_employees_to_dict:
  "load_employees (map (\<lambda>e. JObj (employee_to_dict e)) xs) (Typed z)
     = Inr (Typed (z\<lparr>employees := employees z @ xs\<rparr>))"
  by (induction xs arbitrary: z) (simp_all add: load_employee_to_dict add_employee_def)

lemma zoo_from_data_zoo_data: "zoo_from_data now (zoo_data z) = Inr (Typed z)"
  by (simp add: zoo_from_data_def zoo_data_def and_then_def load_animals_to_dict
        load_employees_to_dict Zoo_init_def)

lemma load_from_file_result:
  "fst (load_from_file now filename fs)
     = (case files fs filename of
          None \<Rightarrow> Inl (FileNotFoundError filename)
        | Some Garbage \<Rightarrow> Inl JSONDecodeError
        | Some (Doc data) \<Rightarrow> zoo_from_data now data)"
  by (simp add: load_from_file_def open_r_def json_load_def close_file_def and_then_def Let_def
           split: option.splits content.splits)

lemma load_from_file_handles: "handles (snd (load_from_file now filename fs)) = handles fs"
  by (simp add: load_from_file_def open_r_def close_file_def Let_def split: option.splits)

lemma load_from_file_files: "files (snd (load_from_file now filename fs)) = files fs"
  by (simp add: load_from_file_def open_r_def close_file_def Let_def split: option.splits)

lemma files_save_to_file:
  "files (save_to_file z filename fs) = (files fs)(filename \<mapsto> Doc (zoo_data z))"
  by (simp add: save_to_file_def open_w_def json_dump_def Let_def)

lemma ap_Typed_iff: "ap f x = Typed y \<longleftrightarrow> (\<exists>g v. f = Typed g \<and> x = Typed v \<and> y = g v)"
  by (cases f; cases x) auto

lemma as_str_Typed: "as_str v = Typed s \<longleftrightarrow> v = JStr s"
  by (cases v) auto

lemma as_int_Typed: "as_int v = Typed i \<longleftrightarrow> v = JInt i"
  by (cases v) auto

lemma as_float_Typed: "as_float v = Typed r \<longleftrightarrow> v = JFloat r"
  by (cases v) auto

lemma as_bool_Typed: "as_bool v = Typed b \<longleftrightarrow> v = JBool b"
  by (cases v) auto

lemma load_animals_Typed:
  "load_animals recs zo = Inr (Typed z') \<Longrightarrow>
     \<exists>z. zo = Typed z \<and> zoo_name z' = zoo_name z \<and> founded_date z' = founded_date z
          \<and> employees z' = employees z"
proof (induction recs arbitrary: zo)
  case Nil
  then show ?case by simp
next
  case (Cons r recs)
  show ?case
  proof (cases "load_animal r")
    case (Inl e)
    with Cons.prems show ?thesis by simp
  next
    case (Inr x)
    show ?thesis
    proof (cases x)
      case None
      with Inr Cons show ?thesis by simp
    next
      case (Some an)
      with Inr Cons.prems
      have "load_animals recs (ap (ap (Typed add_animal) zo) an) = Inr (Typed z')" by simp
      from Cons.IH [OF this] obtain z1 where
        z1: "ap (ap (Typed add_animal) zo) an = Typed z1" "zoo_name z' = zoo_name z1"
            "founded_date z' = founded_date z1" "employees z' = employees z1" by blast
      from z1(1) obtain z a where "zo = Typed z" "an = Typed a" "z1 = add_animal z a"
        by (cases zo; cases an) auto
      with z1 show ?thesis by (simp add: add_animal_def)
    qed
  qed
qed

lemma load_employees_Typed:
  "load_employees recs zo = Inr (Typed z') \<Longrightarrow>
     \<exists>z. zo = Typed z \<and> zoo_name z' = zoo_name z \<and> founded_date z' = founded_date z
          \<and> animals z' = animals z"
proof (induction recs arbitrary: zo)
  case Nil
  then show ?case by simp
next
  case (Cons r recs)
  show ?case
  proof (cases "load_employee r")
    case (Inl e)
    with Cons.prems show ?thesis by simp
  next
    case (Inr x)
    show ?thesis
    proof (cases x)
      case None
      with Inr Cons show ?thesis by simp
    next
      case (Some an)
      with Inr Cons.prems
      have "load_employees recs (ap (ap (Typed add_employee) zo) an) = Inr (Typed z')" by simp
      from Cons.IH [OF this] obtain z1 where
        z1: "ap (ap (Typed add_employee) zo) an = Typed z1" "zoo_name z' = zoo_name z1"
            "founded_date z' = founded_date z1" "animals z' = animals z1" by blast
      from z1(1) obtain z a where "zo = Typed z" "an = Typed a" "z1 = add_employee z a"
        by (cases zo; cases an) auto
      with z1 show ?thesis by (simp add: add_employee_def)
    qed
  qed
qed

lemma fresh_zoo_overwritten:
  "ap (ap (Typed (\<lambda>z v. z\<lparr>founded_date := v\<rparr>)) (ap (Typed (Zoo_init now)) (as_str n))) (as_str d)
     = ap (ap (Typed (\<lambda>n d. \<lparr>zoo_name = n, animals = [], employees = [], founded_date = d\<rparr>))
              (as_str n)) (as_str d)"
  by (cases "as_str n"; cases "as_str d") (simp_all add: Zoo_init_def)

lemma zoo_from_data_clock: "zoo_from_data now1 data = zoo_from_data now2 data"
  unfolding zoo_from_data_def Let_def fresh_zoo_overwritten ..

lemma and_then_Inr_iff: "and_then m f = Inr y \<longleftrightarrow> (\<exists>x. m = Inr x \<and> f x = Inr y)"
  by (cases m) (simp_all add: and_then_def)

lemma zoo_from_data_Typed:
  assumes "zoo_from_data now data = Inr (Typed z)"
  shows "getitem data ''name'' = Inr (JStr (zoo_name z))
         \<and> getitem data ''founded_date'' = Inr (JStr (founded_date z))"
proof -
  from assms obtain n d xs recs zo1 where
    n: "getitem data ''name'' = Inr n" and d: "getitem data ''founded_date'' = Inr d"
    and la: "load_animals recs
              (ap (ap (Typed (\<lambda>n d. \<lparr>zoo_name = n, animals = [], employees = [], founded_date = d\<rparr>))
              (as_str n)) (as_str d)) = Inr zo1"
    and le: "\<exists>erecs. load_employees erecs zo1 = Inr (Typed z)"
    unfolding zoo_from_data_def Let_def fresh_zoo_overwritten and_then_Inr_iff by blast
  from le obtain z1 where z1: "zo1 = Typed z1" "zoo_name z = zoo_name z1"
      "founded_date z = founded_date z1"
    using load_employees_Typed by blast
  from la z1 obtain z0 where z0:
      "ap (ap (Typed (\<lambda>n d. \<lparr>zoo_name = n, animals = [], employees = [], founded_date = d\<rparr>))
              (as_str n)) (as_str d) = Typed z0"
      "zoo_name z1 = zoo_name z0" "founded_date z1 = founded_date z0"
    using load_animals_Typed by blast
  from z0(1) obtain n' d' where "as_str n = Typed n'" "as_str d = Typed d'"
      "z0 = \<lparr>zoo_name = n', animals = [], employees = [], founded_date = d'\<rparr>"
    by (cases "as_str n"; cases "as_str d") auto
  then show ?thesis using n d z0 z1 by (simp add: as_str_Typed)
qed

lemma and_then_Inr: "m = Inr x \<Longrightarrow> and_then m f = f x"
  by (simp add: and_then_def)

lemma and_then_Inl: "m = Inl e \<Longrightarrow> and_then m f = Inl e"
  by (simp add: and_then_def)

lemma field_is_str: "field_is is_str r k \<longleftrightarrow> (\<exists>s. getitem r k = Inr (JStr s))"
  by (cases "getitem r k"; simp add: field_is_def) (metis is_str.elims(2) is_str.simps(1))

lemma field_is_int: "field_is is_int r k \<longleftrightarrow> (\<exists>s. getitem r k = Inr (JInt s))"
  by (cases "getitem r k"; simp add: field_is_def) (metis is_int.elims(2) is_int.simps(1))

lemma field_is_float: "field_is is_float r k \<longleftrightarrow> (\<exists>s. getitem r k = Inr (JFloat s))"
  by (cases "getitem r k"; simp add: field_is_def) (metis is_float.elims(2) is_float.simps(1))

lemma field_is_bool: "field_is is_bool r k \<longleftrightarrow> (\<exists>s. getitem r k = Inr (JBool s))"
  by (cases "getitem r k"; simp add: field_is_def) (metis is_bool.elims(2) is_bool.simps(1))

lemma load_animal_unknown: "unknown_tag animal_tags r \<Longrightarrow> load_animal r = Inr None"
  by (cases "getitem r ''type''")
     (auto simp: unknown_tag_def animal_tags_def load_animal_def construct_animal_def and_then_def
           split: json.splits)

lemma load_employee_unknown: "unknown_tag employee_tags r \<Longrightarrow> load_employee r = Inr None"
  by (cases "getitem r ''type''")
     (auto simp: unknown_tag_def employee_tags_def load_employee_def and_then_def
           split: json.splits)

lemma load_animal_valid:
  assumes "valid_animal_record r"
  shows "\<exists>a. load_animal r = Inr (Some (Typed a)) \<and> holds_fields (animal_to_dict a) r"
proof -
  from assms obtain n a s h g where
    f: "getitem r ''name'' = Inr (JStr n)" "getitem r ''age'' = Inr (JInt a)"
       "getitem r ''species'' = Inr (JStr s)" "getitem r ''health'' = Inr (JInt h)"
       "getitem r ''hunger'' = Inr (JInt g)"
    unfolding valid_animal_record_def field_is_str field_is_int by blast
  from assms consider
      w where "getitem r ''type'' = Inr (JStr ''Bird'')" "getitem r ''wingspan'' = Inr (JFloat w)"
    | c where "getitem r ''type'' = Inr (JStr ''Mammal'')" "getitem r ''fur_color'' = Inr (JStr c)"
    | v where "getitem r ''type'' = Inr (JStr ''Reptile'')" "getitem r ''is_venomous'' = Inr (JBool v)"
    unfolding valid_animal_record_def field_is_str field_is_float field_is_bool by blast
  then show ?thesis
  proof cases
    case 1
    with f have "load_animal r = Inr (Some (Typed ((Bird_init n a s w)\<lparr>health := h, hunger := g\<rparr>)))"
      by (simp add: load_animal_def construct_animal_def and_then_def)
    moreover from 1 f have "holds_fields (animal_to_dict ((Bird_init n a s w)\<lparr>health := h, hunger := g\<rparr>)) r"
      by (simp add: holds_fields_def animal_to_dict_def Animal_to_dict_def Bird_init_def Animal_init_def)
    ultimately show ?thesis by blast
  next
    case 2
    with f have "load_animal r = Inr (Some (Typed ((Mammal_init n a s c)\<lparr>health := h, hunger := g\<rparr>)))"
      by (simp add: load_animal_def construct_animal_def and_then_def)
    moreover from 2 f have "holds_fields (animal_to_dict ((Mammal_init n a s c)\<lparr>health := h, hunger := g\<rparr>)) r"
      by (simp add: holds_fields_def animal_to_dict_def Animal_to_dict_def Mammal_init_def Animal_init_def)
    ultimately show ?thesis by blast
  next
    case 3
    with f have "load_animal r = Inr (Some (Typed ((Reptile_init n a s v)\<lparr>health := h, hunger := g\<rparr>)))"
      by (simp add: load_animal_def construct_animal_def and_then_def)
    moreover from 3 f have "holds_fields (animal_to_dict ((Reptile_init n a s v)\<lparr>health := h, hunger := g\<rparr>)) r"
      by (simp add: holds_fields_def animal_to_dict_def Animal_to_dict_def Reptile_init_def Animal_init_def)
    ultimately show ?thesis by blast
  qed
qed

lemma load_employee_valid:
  assumes "valid_employee_record r"
  shows "\<exists>e. load_employee r = Inr (Some (Typed e)) \<and> holds_fields (employee_to_dict e) r"
proof -
  from assms obtain n i s where
    f: "getitem r ''name'' = Inr (JStr n)" "getitem r ''id_number'' = Inr (JStr i)"
       "getitem r ''specialization'' = Inr (JStr s)"
    unfolding valid_employee_record_def field_is_str by blast
  from assms consider "getitem r ''type'' = Inr (JStr ''ZooKeeper'')"
    | "getitem r ''type'' = Inr (JStr ''Veterinarian'')"
    unfolding valid_employee_record_def by blast
  then show ?thesis
  proof cases
    case 1
    with f have "load_employee r = Inr (Some (Typed (ZooKeeper_init n i s)))"
      by (simp add: load_employee_def and_then_def)
    moreover from 1 f have "holds_fields (employee_to_dict (ZooKeeper_init n i s)) r"
      by (simp add: holds_fields_def employee_to_dict_def ZooKeeper_init_def Employee_init_def)
    ultimately show ?thesis by blast
  next
    case 2
    with f have "load_employee r = Inr (Some (Typed (Veterinarian_init n i s)))"
      by (simp add: load_employee_def and_then_def)
    moreover from 2 f have "holds_fields (employee_to_dict (Veterinarian_init n i s)) r"
      by (simp add: holds_fields_def employee_to_dict_def Veterinarian_init_def Employee_init_def)
    ultimately show ?thesis by blast
  qed
qed

lemma valid_animal_not_unknown: "valid_animal_record r \<Longrightarrow> \<not> unknown_tag animal_tags r"
  by (auto simp: valid_animal_record_def unknown_tag_def animal_tags_def)

lemma valid_employee_not_unknown: "valid_employee_record r \<Longrightarrow> \<not> unknown_tag employee_tags r"
  by (auto simp: valid_employee_record_def unknown_tag_def employee_tags_def)

lemma load_animals_valid_or_unknown:
  "\<forall>r\<in>set recs. valid_animal_record r \<or> unknown_tag animal_tags r \<Longrightarrow>
     \<exists>as. load_animals recs (Typed z) = Inr (Typed (z\<lparr>animals := animals z @ as\<rparr>))
        \<and> list_all2 (\<lambda>a r. holds_fields (animal_to_dict a) r) as (filter valid_animal_record recs)"
proof (induction recs arbitrary: z)
  case Nil
  then show ?case by simp
next
  case (Cons r recs)
  from Cons.prems have rest: "\<forall>r\<in>set recs. valid_animal_record r \<or> unknown_tag animal_tags r"
    by simp
  show ?case
  proof (cases "valid_animal_record r")
    case True
    then obtain a where a: "load_animal r = Inr (Some (Typed a))" "holds_fields (animal_to_dict a) r"
      using load_animal_valid by blast
    from Cons.IH [OF rest, of "add_animal z a"] obtain as where
      "load_animals recs (Typed (add_animal z a))
         = Inr (Typed ((add_animal z a)\<lparr>animals := animals (add_animal z a) @ as\<rparr>))"
      "list_all2 (\<lambda>a r. holds_fields (animal_to_dict a) r) as (filter valid_animal_record recs)"
      by blast
    with a True have
      "load_animals (r # recs) (Typed z) = Inr (Typed (z\<lparr>animals := animals z @ (a # as)\<rparr>))
       \<and> list_all2 (\<lambda>a r. holds_fields (animal_to_dict a) r) (a # as)
            (filter valid_animal_record (r # recs))"
      by (simp add: add_animal_def)
    then show ?thesis by blast
  next
    case False
    with Cons.prems have "unknown_tag animal_tags r" by simp
    then have "load_animal r = Inr None" by (rule load_animal_unknown)
    with False Cons.IH [OF rest, of z] show ?thesis by simp
  qed
qed

lemma load_employees_valid_or_unknown:
  "\<forall>r\<in>set recs. valid_employee_record r \<or> unknown_tag employee_tags r \<Longrightarrow>
     \<exists>es. load_employees recs (Typed z) = Inr (Typed (z\<lparr>employees := employees z @ es\<rparr>))
        \<and> list_all2 (\<lambda>e r. holds_fields (employee_to_dict e) r) es (filter valid_employee_record recs)"
proof (induction recs arbitrary: z)
  case Nil
  then show ?case by simp
next
  case (Cons r recs)
  from Cons.prems have rest: "\<forall>r\<in>set recs. valid_employee_record r \<or> unknown_tag employee_tags r"
    by simp
  show ?case
  proof (cases "valid_employee_record r")
    case True
    then obtain e where e: "load_employee r = Inr (Some (Typed e))" "holds_fields (employee_to_dict e) r"
      using load_employee_valid by blast
    from Cons.IH [OF rest, of "add_employee z e"] obtain es where
      "load_employees recs (Typed (add_employee z e))
         = Inr (Typed ((add_employee z e)\<lparr>employees := employees (add_employee z e) @ es\<rparr>))"
      "list_all2 (\<lambda>e r. holds_fields (employee_to_dict e) r) es (filter valid_employee_record recs)"
      by blast
    with e True have
      "load_employees (r # recs) (Typed z) = Inr (Typed (z\<lparr>employees := employees z @ (e # es)\<rparr>))
       \<and> list_all2 (\<lambda>e r. holds_fields (employee_to_dict e) r) (e # es)
            (filter valid_employee_record (r # recs))"
      by (simp add: add_employee_def)
    then show ?thesis by blast
  next
    case False
    with Cons.prems have "unknown_tag employee_tags r" by simp
    then have "load_employee r = Inr None" by (rule load_employee_unknown)
    with False Cons.IH [OF rest, of z] show ?thesis by simp
  qed
qed

lemma length_filter_resolved:
  assumes "\<forall>r\<in>set recs. P r \<or> Q r" and "\<And>r. P r \<Longrightarrow> \<not> Q r"
  shows "length (filter P recs) = length recs - length (filter Q recs)"
proof -
  have "filter P recs = filter (\<lambda>r. \<not> Q r) recs"
    using assms by (intro filter_cong) auto
  then show ?thesis
    using sum_length_filter_compl [of Q recs] by simp
qed

lemma getitem_Inr_JObj: "getitem r k = Inr v \<Longrightarrow> \<exists>kvs. r = JObj kvs"
  by (cases r) simp_all

lemma load_animal_malformed:
  assumes "malformed_animal_record r"
  shows "\<exists>k. missing_key r k \<and> load_animal r = Inl (KeyError k)"
proof -
  from assms obtain t where t: "getitem r ''type'' = Inr (JStr t)" "t \<in> set animal_tags"
      and ex: "list_ex (missing_key r) (animal_keys t)"
    by (auto simp: malformed_animal_record_def split: sum.splits json.splits)
  from t(1) obtain kvs where r: "r = JObj kvs" using getitem_Inr_JObj by blast
  from t(2) consider "t = ''Bird''" | "t = ''Mammal''" | "t = ''Reptile''"
    by (auto simp: animal_tags_def)
  then show ?thesis
  proof cases
    case 1
    with t ex r show ?thesis
      by (auto simp: animal_keys_def missing_key_def load_animal_def construct_animal_def
            and_then_def split: option.splits)
  next
    case 2
    with t ex r show ?thesis
      by (auto simp: animal_keys_def missing_key_def load_animal_def construct_animal_def
            and_then_def split: option.splits)
  next
    case 3
    with t ex r show ?thesis
      by (auto simp: animal_keys_def missing_key_def load_animal_def construct_animal_def
            and_then_def split: option.splits)
  qed
qed

lemma load_employee_malformed:
  assumes "malformed_employee_record r"
  shows "\<exists>k. missing_key r k \<and> load_employee r = Inl (KeyError k)"
proof -
  from assms obtain t where t: "getitem r ''type'' = Inr (JStr t)" "t \<in> set employee_tags"
      and ex: "list_ex (missing_key r) employee_keys"
    by (auto simp: malformed_employee_record_def split: sum.splits json.splits)
  from t(1) obtain kvs where r: "r = JObj kvs" using getitem_Inr_JObj by blast
  from t(2) consider "t = ''ZooKeeper''" | "t = ''Veterinarian''"
    by (auto simp: employee_tags_def)
  then show ?thesis
  proof cases
    case 1
    with t ex r show ?thesis
      by (auto simp: employee_keys_def missing_key_def load_employee_def
            and_then_def split: option.splits)
  next
    case 2
    with t ex r show ?thesis
      by (auto simp: employee_keys_def missing_key_def load_employee_def
            and_then_def split: option.splits)
  qed
qed

lemma load_animals_propagates:
  "r \<in> set recs \<Longrightarrow> load_animal r = Inl e \<Longrightarrow> \<exists>e'. load_animals recs zo = Inl e'"
proof (induction recs arbitrary: zo)
  case Nil
  then show ?case by simp
next
  case (Cons x xs)
  show ?case
  proof (cases "load_animal x")
    case (Inl e0)
    then show ?thesis by simp
  next
    case (Inr y)
    with Cons.prems have "r \<in> set xs" by auto
    from Cons.IH [OF this Cons.prems(2)] Inr show ?thesis
      by (cases y) simp_all
  qed
qed

lemma load_employees_propagates:
  "r \<in> set recs \<Longrightarrow> load_employee r = Inl e \<Longrightarrow> \<exists>e'. load_employees recs zo = Inl e'"
proof (induction recs arbitrary: zo)
  case Nil
  then show ?case by simp
next
  case (Cons x xs)
  show ?case
  proof (cases "load_employee x")
    case (Inl e0)
    then show ?thesis by simp
  next
    case (Inr y)
    with Cons.prems have "r \<in> set xs" by auto
    from Cons.IH [OF this Cons.prems(2)] Inr show ?thesis
      by (cases y) simp_all
  qed
qed

lemma and_then_fails: "(\<And>x. \<exists>e. f x = Inl e) \<Longrightarrow> \<exists>e. and_then m f = Inl e"
  by (cases m) (simp_all add: and_then_def)

lemma zoo_from_data_bad_animal:
  assumes "getitem data ''animals'' = Inr (JList recs)" "r \<in> set recs" "load_animal r = Inl e"
  shows "\<exists>e'. zoo_from_data now data = Inl e'"
proof -
  have h: "\<exists>e'. and_then (getitem data ''animals'')
               (\<lambda>xs. and_then (iter xs) (\<lambda>animal_records.
                  and_then (load_animals animal_records zo) f)) = Inl e'"
    for zo and f :: "zoo obj \<Rightarrow> error + zoo obj"
    using load_animals_propagates [OF assms(2,3), of zo]
    by (auto simp: assms(1) and_then_Inr and_then_Inl)
  show ?thesis
    unfolding zoo_from_data_def Let_def
    by (rule and_then_fails, rule and_then_fails, rule h)
qed

lemma zoo_from_data_bad_employee:
  assumes "getitem data ''employees'' = Inr (JList recs)" "r \<in> set recs" "load_employee r = Inl e"
  shows "\<exists>e'. zoo_from_data now data = Inl e'"
proof -
  have h: "\<exists>e'. and_then (getitem data ''employees'')
               (\<lambda>ys. and_then (iter ys) (\<lambda>employee_records. load_employees employee_records zo)) = Inl e'"
    for zo
    using load_employees_propagates [OF assms(2,3)] by (simp add: assms(1) and_then_Inr)
  show ?thesis
    unfolding zoo_from_data_def Let_def
    by (rule and_then_fails, rule and_then_fails, rule and_then_fails, rule and_then_fails,
        rule and_then_fails, rule h)
qed

lemma load_animal_skip: "load_animal r = Inr None \<Longrightarrow> unknown_tag animal_tags r"
  by (auto simp: load_animal_def construct_animal_def and_then_Inr_iff unknown_tag_def
        animal_tags_def split: if_splits json.splits)

lemma load_employee_skip: "load_employee r = Inr None \<Longrightarrow> unknown_tag employee_tags r"
  by (auto simp: load_employee_def and_then_Inr_iff unknown_tag_def
        employee_tags_def split: if_splits json.splits)

lemma load_animal_overlay:
  assumes "load_animal r = Inr (Some (Typed a))"
  shows "getitem r ''health'' = Inr (JInt (health a)) \<and> getitem r ''hunger'' = Inr (JInt (hunger a))"
proof -
  from assms obtain c h g where
    h: "getitem r ''health'' = Inr h" and g: "getitem r ''hunger'' = Inr g"
    and a: "ap (ap (Typed (\<lambda>an v. an\<lparr>hunger := v\<rparr>))
                (ap (ap (Typed (\<lambda>an v. an\<lparr>health := v\<rparr>)) c) (as_int h))) (as_int g) = Typed a"
    by (auto simp: load_animal_def and_then_Inr_iff Let_def split: option.splits)
  from a obtain c' h' g' where "c = Typed c'" "as_int h = Typed h'" "as_int g = Typed g'"
      "a = c'\<lparr>health := h', hunger := g'\<rparr>"
    by (cases c; cases "as_int h"; cases "as_int g") auto
  with h g show ?thesis by (simp add: as_int_Typed)
qed

lemma load_animals_overlay:
  "load_animals recs zo = Inr (Typed z') \<Longrightarrow>
     \<exists>z as. zo = Typed z \<and> animals z' = animals z @ as
        \<and> (\<forall>a\<in>set as. \<exists>r\<in>set recs. load_animal r = Inr (Some (Typed a)))"
proof (induction recs arbitrary: zo)
  case Nil
  then show ?case by simp
next
  case (Cons r recs)
  show ?case
  proof (cases "load_animal r")
    case (Inl e)
    with Cons.prems show ?thesis by simp
  next
    case (Inr x)
    show ?thesis
    proof (cases x)
      case None
      with Inr Cons.prems have "load_animals recs zo = Inr (Typed z')" by simp
      from Cons.IH [OF this] show ?thesis by auto
    next
      case (Some an)
      with Inr Cons.prems
      have "load_animals recs (ap (ap (Typed add_animal) zo) an) = Inr (Typed z')" by simp
      from Cons.IH [OF this] obtain z1 as where
        z1: "ap (ap (Typed add_animal) zo) an = Typed z1" "animals z' = animals z1 @ as"
            "\<forall>a\<in>set as. \<exists>r\<in>set recs. load_animal r = Inr (Some (Typed a))" by blast
      from z1(1) obtain z a where za: "zo = Typed z" "an = Typed a" "z1 = add_animal z a"
        by (cases zo; cases an) auto
      with z1 Inr Some have "zo = Typed z \<and> animals z' = animals z @ (a # as)
          \<and> (\<forall>a\<in>set (a # as). \<exists>r\<in>set (r # recs). load_animal r = Inr (Some (Typed a)))"
        by (auto simp: add_animal_def)
      then show ?thesis by blast
    qed
  qed
qed

lemma zoo_from_data_animals:
  assumes "zoo_from_data now data = Inr (Typed z)" "getitem data ''animals'' = Inr (JList recs)"
  shows "\<forall>a\<in>set (animals z). \<exists>r\<in>set recs. load_animal r = Inr (Some (Typed a))"
proof -
  let ?zo0 = "\<lambda>n d. ap (ap (Typed (\<lambda>n d. \<lparr>zoo_name = n, animals = [], employees = [],
                  founded_date = d\<rparr>)) (as_str n)) (as_str d)"
  from assms obtain n d zo1 erecs where
    la: "load_animals recs (?zo0 n d) = Inr zo1"
    and le: "load_employees erecs zo1 = Inr (Typed z)"
    unfolding zoo_from_data_def Let_def fresh_zoo_overwritten and_then_Inr_iff
    by auto
  from load_employees_Typed [OF le] obtain z1 where z1: "zo1 = Typed z1" "animals z = animals z1"
    by blast
  from load_animals_overlay [OF la [unfolded z1(1)]] obtain z0 as where
    z0: "?zo0 n d = Typed z0" "animals z1 = animals z0 @ as"
        "\<forall>a\<in>set as. \<exists>r\<in>set recs. load_animal r = Inr (Some (Typed a))"
    by blast
  from z0(1) have "animals z0 = []" by (auto simp: ap_Typed_iff)
  with z0 z1 show ?thesis by simp
qed

lemma record_inv_animal_inv:
  assumes "load_animal r = Inr (Some (Typed a))" "record_inv r"
  shows "animal_inv a"
  using load_animal_overlay [OF assms(1)] assms(2) by (simp add: record_inv_def animal_inv_def)

lemma handles_save_to_file: "handles (save_to_file z filename fs) = filename # handles fs"
  by (simp add: save_to_file_def open_w_def json_dump_def Let_def)

section \<open>Feeding and healing\<close>

text \<open>
  C2. For every animal and every integer \<open>food_amount\<close>, negative or larger
  than the current hunger included, \<open>eat\<close> leaves the hunger at
  \<open>max 0 (hunger - food_amount)\<close>, which is never below 0, and returns the
  status string that ends with the new hunger in decimal; the string tells
  the new hunger: two calls that return the same string leave the same hunger.
\<close>

theorem eat_clamps_hunger:
  "hunger (snd (eat a food_amount)) = max 0 (hunger a - food_amount)
   \<and> 0 \<le> hunger (snd (eat a food_amount))
   \<and> fst (eat a food_amount)
       = name a @ '' has eaten. Hunger level: '' @ str_int (max 0 (hunger a - food_amount))
   \<and> (fst (eat a food_amount) = fst (eat a other_amount) \<longrightarrow>
        hunger (snd (eat a food_amount)) = hunger (snd (eat a other_amount)))"
proof (intro conjI impI)
  assume "fst (eat a food_amount) = fst (eat a other_amount)"
  then have "str_int (max 0 (hunger a - food_amount)) = str_int (max 0 (hunger a - other_amount))"
    by (simp add: eat_def Let_def)
  then have "max 0 (hunger a - food_amount) = max 0 (hunger a - other_amount)"
    by (rule str_int_inj)
  then show "hunger (snd (eat a food_amount)) = hunger (snd (eat a other_amount))"
    by (simp add: eat_def Let_def)
qed (simp_all add: eat_def Let_def)

theorem eat_clamps_hunger_witness:
  "eat ((Mammal_init ''Leo'' 8 ''Lion'' ''golden'')\<lparr>hunger := 40\<rparr>) 30
     = (''Leo has eaten. Hunger level: 10'', (Mammal_init ''Leo'' 8 ''Lion'' ''golden'')\<lparr>hunger := 10\<rparr>)
   \<and> hunger (snd (eat ((Mammal_init ''Leo'' 8 ''Lion'' ''golden'')\<lparr>hunger := 40\<rparr>) 70)) = 0
   \<and> hunger (snd (eat ((Mammal_init ''Leo'' 8 ''Lion'' ''golden'')\<lparr>hunger := 40\<rparr>) (- 5))) = 45"
  using eat_clamps_hunger [of "(Mammal_init ''Leo'' 8 ''Lion'' ''golden'')\<lparr>hunger := 40\<rparr>" 30 30]
        eat_clamps_hunger [of "(Mammal_init ''Leo'' 8 ''Lion'' ''golden'')\<lparr>hunger := 40\<rparr>" 70 80]
        eat_clamps_hunger [of "(Mammal_init ''Leo'' 8 ''Lion'' ''golden'')\<lparr>hunger := 40\<rparr>" "- 5" "- 5"]
  by (simp add: eat_def Let_def Mammal_init_def Animal_init_def str_int_def str_nat.simps)

text \<open>
  C3. For every veterinarian and animal: when the health is below 100,
  \<open>heal_animal\<close> sets it to \<open>min (health + 20) 100\<close> and returns the message
  with the new value; when the health is 100 it changes nothing and returns the
  "already healthy" status; a health of at most 100 stays at most 100; and any
  number of further calls on an animal with health 100 change nothing.
\<close>

theorem heal_animal_caps_health:
  "(health a < 100 \<longrightarrow>
      snd (heal_animal v a) = a\<lparr>health := min (health a + 20) 100\<rparr>
      \<and> fst (heal_animal v a)
          = ''Veterinarian '' @ emp_name v @ '' treated '' @ name a @ ''. Health now: ''
            @ str_int (min (health a + 20) 100))
   \<and> (health a = 100 \<longrightarrow> heal_animal v a = (name a @ '' is already healthy'', a))
   \<and> (health a \<le> 100 \<longrightarrow> health (snd (heal_animal v a)) \<le> 100)
   \<and> (health a = 100 \<longrightarrow> ((\<lambda>x. snd (heal_animal v x)) ^^ k) a = a)"
proof (intro conjI impI)
  assume "health a < 100"
  then show "snd (heal_animal v a) = a\<lparr>health := min (health a + 20) 100\<rparr>"
    by (simp add: heal_animal_def Let_def min.commute)
next
  assume "health a < 100"
  then show "fst (heal_animal v a)
          = ''Veterinarian '' @ emp_name v @ '' treated '' @ name a @ ''. Health now: ''
            @ str_int (min (health a + 20) 100)"
    by (simp add: heal_animal_def Let_def min.commute)
next
  assume "health a = 100"
  then show "heal_animal v a = (name a @ '' is already healthy'', a)"
    by (rule heal_animal_healthy)
next
  assume "health a \<le> 100"
  then show "health (snd (heal_animal v a)) \<le> 100"
    by (simp add: heal_animal_def Let_def)
next
  assume "health a = 100"
  then show "((\<lambda>x. snd (heal_animal v x)) ^^ k) a = a"
    by (rule heal_animal_healthy_funpow)
qed

theorem heal_animal_caps_health_witness:
  "heal_animal (Veterinarian_init ''Dr. Smith'' ''VET001'' ''Avian medicine'')
       ((Bird_init ''Eddie'' 5 ''Eagle'' 2.1)\<lparr>health := 85\<rparr>)
     = (''Veterinarian Dr. Smith treated Eddie. Health now: 100'', Bird_init ''Eddie'' 5 ''Eagle'' 2.1)
   \<and> heal_animal (Veterinarian_init ''Dr. Smith'' ''VET001'' ''Avian medicine'')
       (Bird_init ''Eddie'' 5 ''Eagle'' 2.1)
     = (''Eddie is already healthy'', Bird_init ''Eddie'' 5 ''Eagle'' 2.1)
   \<and> ((\<lambda>x. snd (heal_animal (Veterinarian_init ''Dr. Smith'' ''VET001'' ''Avian medicine'') x)) ^^ 3)
       (Bird_init ''Eddie'' 5 ''Eagle'' 2.1) = Bird_init ''Eddie'' 5 ''Eagle'' 2.1
   \<and> health (snd (heal_animal (Veterinarian_init ''Dr. Smith'' ''VET001'' ''Avian medicine'')
       ((Bird_init ''Eddie'' 5 ''Eagle'' 2.1)\<lparr>health := 50\<rparr>))) = 70"
  using heal_animal_caps_health
          [of "(Bird_init ''Eddie'' 5 ''Eagle'' 2.1)\<lparr>health := 85\<rparr>"
              "Veterinarian_init ''Dr. Smith'' ''VET001'' ''Avian medicine''" 3]
        heal_animal_caps_health
          [of "Bird_init ''Eddie'' 5 ''Eagle'' 2.1"
              "Veterinarian_init ''Dr. Smith'' ''VET001'' ''Avian medicine''" 3]
        heal_animal_caps_health
          [of "(Bird_init ''Eddie'' 5 ''Eagle'' 2.1)\<lparr>health := 50\<rparr>"
              "Veterinarian_init ''Dr. Smith'' ''VET001'' ''Avian medicine''" 3]
  by (simp add: prod_eq_iff Veterinarian_init_def Employee_init_def Bird_init_def Animal_init_def
                str_int_def str_nat.simps)

text \<open>
  C8. \<open>eat\<close> changes the receiver's hunger and nothing else; \<open>heal_animal\<close>
  changes the animal's health and nothing else; \<open>feed_animal\<close> leaves the
  animal exactly as \<open>eat\<close> does and only wraps the string \<open>eat\<close> returned.
\<close>

theorem eat_heal_feed_frame:
  "snd (eat a food_amount) = a\<lparr>hunger := hunger (snd (eat a food_amount))\<rparr>
   \<and> name (snd (eat a food_amount)) = name a
   \<and> age (snd (eat a food_amount)) = age a
   \<and> species (snd (eat a food_amount)) = species a
   \<and> health (snd (eat a food_amount)) = health a
   \<and> cls (snd (eat a food_amount)) = cls a
   \<and> snd (heal_animal v a) = a\<lparr>health := health (snd (heal_animal v a))\<rparr>
   \<and> name (snd (heal_animal v a)) = name a
   \<and> age (snd (heal_animal v a)) = age a
   \<and> species (snd (heal_animal v a)) = species a
   \<and> hunger (snd (heal_animal v a)) = hunger a
   \<and> cls (snd (heal_animal v a)) = cls a
   \<and> snd (feed_animal k a food_amount) = snd (eat a food_amount)
   \<and> fst (feed_animal k a food_amount)
       = ''Zookeeper '' @ emp_name k @ '' fed '' @ name a @ ''. '' @ fst (eat a food_amount)"
  by (simp add: eat_def heal_animal_def feed_animal_def Let_def)

theorem eat_heal_feed_frame_witness:
  "snd (feed_animal (ZooKeeper_init ''John'' ''ZK001'' ''Large mammals'')
          ((Mammal_init ''Leo'' 8 ''Lion'' ''golden'')\<lparr>hunger := 40, health := 70\<rparr>) 30)
     = (Mammal_init ''Leo'' 8 ''Lion'' ''golden'')\<lparr>hunger := 10, health := 70\<rparr>
   \<and> fst (feed_animal (ZooKeeper_init ''John'' ''ZK001'' ''Large mammals'')
          ((Mammal_init ''Leo'' 8 ''Lion'' ''golden'')\<lparr>hunger := 40, health := 70\<rparr>) 30)
     = ''Zookeeper John fed Leo. Leo has eaten. Hunger level: 10''"
  using eat_heal_feed_frame
          [of "(Mammal_init ''Leo'' 8 ''Lion'' ''golden'')\<lparr>hunger := 40, health := 70\<rparr>" 30
              "ZooKeeper_init ''John'' ''ZK001'' ''Large mammals''"
              "ZooKeeper_init ''John'' ''ZK001'' ''Large mammals''"]
  by (simp add: eat_def Let_def ZooKeeper_init_def Employee_init_def Mammal_init_def Animal_init_def
                str_int_def str_nat.simps)

section \<open>Invariant of the mutable state\<close>

text \<open>
  C4, as stated, fails at the load step. The loader copies \<^verbatim>\<open>health\<close> and
  \<^verbatim>\<open>hunger\<close> from the record without looking at them: a document whose bird
  has health 150 and hunger -5 loads without error, and the loaded bird is
  outside the bounds.
\<close>

theorem load_breaks_state_bounds:
  "fst (load_from_file ''2026-01-01'' ''zoo_state.json''
          \<lparr>files = [''zoo_state.json'' \<mapsto> Doc (JObj
             [(''name'', JStr ''Central Zoo''),
              (''founded_date'', JStr ''2024-05-01''),
              (''animals'', JList
                 [JObj [(''type'', JStr ''Bird''), (''name'', JStr ''Eddie''), (''age'', JInt 5),
                        (''species'', JStr ''Eagle''), (''health'', JInt 150), (''hunger'', JInt (- 5)),
                        (''wingspan'', JFloat 2.1)]]),
              (''employees'', JList [])])],
           handles = []\<rparr>)
     = Inr (Typed \<lparr>zoo_name = ''Central Zoo'',
                   animals = [\<lparr>name = ''Eddie'', age = 5, species = ''Eagle'', health = 150,
                               hunger = - 5, cls = Bird 2.1\<rparr>],
                   employees = [], founded_date = ''2024-05-01''\<rparr>)
   \<and> \<not> animal_inv \<lparr>name = ''Eddie'', age = 5, species = ''Eagle'', health = 150,
                     hunger = - 5, cls = Bird 2.1\<rparr>"
  by (simp add: load_from_file_result zoo_from_data_def load_animal_def construct_animal_def
        and_then_def Zoo_init_def add_animal_def Bird_init_def Animal_init_def animal_inv_def)

text \<open>
  C4, amended. The bounds \<open>0 \<le> health \<le> 100\<close> and \<open>0 \<le> hunger\<close> hold after
  each of the three constructors and are preserved by \<open>eat\<close>, \<open>feed_animal\<close>
  and \<open>heal_animal\<close>; a record written for an animal within the bounds is
  within them. The load step checks nothing: every loaded animal has exactly the
  health and hunger of a record of the document, so the loaded animals are
  within the bounds whenever the document's records are.
\<close>

theorem state_bounds_preserved:
  "animal_inv (Bird_init n g s w) \<and> animal_inv (Mammal_init n g s c) \<and> animal_inv (Reptile_init n g s v)
   \<and> (animal_inv x \<longrightarrow>
        animal_inv (snd (eat x food_amount)) \<and> animal_inv (snd (feed_animal k x food_amount))
        \<and> animal_inv (snd (heal_animal k x)) \<and> record_inv (JObj (animal_to_dict x)))
   \<and> (fst (load_from_file now filename fs) = Inr (Typed z) \<and> files fs filename = Some (Doc data)
        \<and> getitem data ''animals'' = Inr (JList recs) \<longrightarrow>
        (\<forall>a\<in>set (animals z). \<exists>r\<in>set recs.
            getitem r ''health'' = Inr (JInt (health a)) \<and> getitem r ''hunger'' = Inr (JInt (hunger a)))
        \<and> ((\<forall>r\<in>set recs. record_inv r) \<longrightarrow> (\<forall>a\<in>set (animals z). animal_inv a)))"
proof (intro conjI impI)
  show "animal_inv (Bird_init n g s w)" "animal_inv (Mammal_init n g s c)"
       "animal_inv (Reptile_init n g s v)"
    by (simp_all add: animal_inv_def Bird_init_def Mammal_init_def Reptile_init_def Animal_init_def)
next
  assume "animal_inv x"
  then show "animal_inv (snd (eat x food_amount))"
    by (simp add: animal_inv_def eat_def Let_def)
next
  assume "animal_inv x"
  then show "animal_inv (snd (feed_animal k x food_amount))"
    by (simp add: animal_inv_def feed_animal_def eat_def Let_def)
next
  assume "animal_inv x"
  then show "animal_inv (snd (heal_animal k x))"
    by (simp add: animal_inv_def heal_animal_def Let_def)
next
  assume "animal_inv x"
  then show "record_inv (JObj (animal_to_dict x))"
    by (cases "cls x") (simp_all add: animal_inv_def record_inv_def animal_to_dict_def Animal_to_dict_def)
next
  assume a: "fst (load_from_file now filename fs) = Inr (Typed z) \<and> files fs filename = Some (Doc data)
        \<and> getitem data ''animals'' = Inr (JList recs)"
  then have "zoo_from_data now data = Inr (Typed z)" by (auto simp: load_from_file_result)
  with a have *: "\<forall>a\<in>set (animals z). \<exists>r\<in>set recs. load_animal r = Inr (Some (Typed a))"
    using zoo_from_data_animals by blast
  then show "\<forall>a\<in>set (animals z). \<exists>r\<in>set recs.
            getitem r ''health'' = Inr (JInt (health a)) \<and> getitem r ''hunger'' = Inr (JInt (hunger a))"
    using load_animal_overlay by blast
  assume "\<forall>r\<in>set recs. record_inv r"
  with * show "\<forall>a\<in>set (animals z). animal_inv a"
    using record_inv_animal_inv by blast
qed

theorem state_bounds_preserved_witness:
  "animal_inv (snd (eat ((Mammal_init ''Leo'' 8 ''Lion'' ''golden'')\<lparr>hunger := 40, health := 70\<rparr>) 30))
   \<and> animal_inv (snd (heal_animal (Veterinarian_init ''Dr. Smith'' ''VET001'' ''Avian medicine'')
         ((Mammal_init ''Leo'' 8 ''Lion'' ''golden'')\<lparr>hunger := 40, health := 70\<rparr>)))
   \<and> fst (load_from_file ''2026-01-01'' ''zoo_state.json''
          \<lparr>files = [''zoo_state.json'' \<mapsto> Doc (JObj
             [(''name'', JStr ''Central Zoo''), (''founded_date'', JStr ''2024-05-01''),
              (''animals'', JList
                 [JObj [(''type'', JStr ''Bird''), (''name'', JStr ''Eddie''), (''age'', JInt 5),
                        (''species'', JStr ''Eagle''), (''health'', JInt 85), (''hunger'', JInt 10),
                        (''wingspan'', JFloat 2.1)]]),
              (''employees'', JList [])])],
           handles = []\<rparr>)
     = Inr (Typed \<lparr>zoo_name = ''Central Zoo'',
                   animals = [\<lparr>name = ''Eddie'', age = 5, species = ''Eagle'', health = 85,
                               hunger = 10, cls = Bird 2.1\<rparr>],
                   employees = [], founded_date = ''2024-05-01''\<rparr>)
   \<and> animal_inv \<lparr>name = ''Eddie'', age = 5, species = ''Eagle'', health = 85, hunger = 10,
                  cls = Bird 2.1\<rparr>"
proof -
  let ?x = "(Mammal_init ''Leo'' 8 ''Lion'' ''golden'')\<lparr>hunger := 40, health := 70\<rparr>"
  let ?recs = "[JObj [(''type'', JStr ''Bird''), (''name'', JStr ''Eddie''), (''age'', JInt 5),
                        (''species'', JStr ''Eagle''), (''health'', JInt 85), (''hunger'', JInt 10),
                        (''wingspan'', JFloat 2.1)]]"
  let ?data = "JObj [(''name'', JStr ''Central Zoo''), (''founded_date'', JStr ''2024-05-01''),
              (''animals'', JList ?recs), (''employees'', JList [])]"
  let ?fs = "\<lparr>files = [''zoo_state.json'' \<mapsto> Doc ?data], handles = []\<rparr>"
  let ?a = "\<lparr>name = ''Eddie'', age = 5, species = ''Eagle'', health = 85, hunger = 10,
             cls = Bird 2.1\<rparr>"
  let ?z = "\<lparr>zoo_name = ''Central Zoo'', animals = [?a], employees = [],
             founded_date = ''2024-05-01''\<rparr>"
  have x: "animal_inv ?x"
    by (simp add: animal_inv_def Mammal_init_def Animal_init_def)
  have l: "fst (load_from_file ''2026-01-01'' ''zoo_state.json'' ?fs) = Inr (Typed ?z)
           \<and> files ?fs ''zoo_state.json'' = Some (Doc ?data)
           \<and> getitem ?data ''animals'' = Inr (JList ?recs)"
    by (simp add: load_from_file_result zoo_from_data_def load_animal_def construct_animal_def
          and_then_def Zoo_init_def add_animal_def Bird_init_def Animal_init_def)
  have r: "\<forall>r\<in>set ?recs. record_inv r"
    by (simp add: record_inv_def)
  from state_bounds_preserved
         [where x = ?x and food_amount = 30
            and k = "Veterinarian_init ''Dr. Smith'' ''VET001'' ''Avian medicine''"
            and now = "''2026-01-01''" and filename = "''zoo_state.json''" and fs = ?fs
            and z = ?z and data = ?data and recs = ?recs] x l r
  have "animal_inv (snd (eat ?x 30))"
       "animal_inv (snd (heal_animal (Veterinarian_init ''Dr. Smith'' ''VET001'' ''Avian medicine'') ?x))"
       "\<forall>a\<in>set (animals ?z). animal_inv a"
    by blast+
  with l show ?thesis by simp
qed

section \<open>Listings\<close>

text \<open>
  C7. \<open>add_animal\<close> and \<open>add_employee\<close> append at the end of their
  collection and leave the other one alone. For every zoo the three listings
  are the newline-joined lines of its collection, in the collection's order.
  For a zoo filled by successive
  additions, \<open>list_animals\<close> is the newline-joined "species name" lines,
  \<open>animal_sounds\<close> the newline-joined \<open>make_sound\<close> outputs and
  \<open>list_employees\<close> the newline-joined "class name" lines, each in the order
  of the additions whatever the variants; one more addition puts its line last.
\<close>

theorem listings_follow_insertion_order:
  "animals (add_animal z a) = animals z @ [a]
   \<and> employees (add_animal z a) = employees z
   \<and> employees (add_employee z e) = employees z @ [e]
   \<and> animals (add_employee z e) = animals z
   \<and> list_animals z = join NL (map (\<lambda>x. species x @ '' '' @ name x) (animals z))
   \<and> animal_sounds z = join NL (map make_sound (animals z))
   \<and> list_employees z
       = join NL (map (\<lambda>x. employee_class_name (role x) @ '' '' @ emp_name x) (employees z))
   \<and> list_animals (foldl add_animal (Zoo_init now n) as)
       = join NL (map (\<lambda>x. species x @ '' '' @ name x) as)
   \<and> animal_sounds (foldl add_animal (Zoo_init now n) as) = join NL (map make_sound as)
   \<and> list_employees (foldl add_employee (Zoo_init now n) es)
       = join NL (map (\<lambda>x. employee_class_name (role x) @ '' '' @ emp_name x) es)
   \<and> list_animals (add_animal z a)
       = (if animals z = [] then species a @ '' '' @ name a
          else list_animals z @ NL @ species a @ '' '' @ name a)
   \<and> animal_sounds (add_animal z a)
       = (if animals z = [] then make_sound a else animal_sounds z @ NL @ make_sound a)
   \<and> list_employees (add_employee z e)
       = (if employees z = [] then employee_class_name (role e) @ '' '' @ emp_name e
          else list_employees z @ NL @ employee_class_name (role e) @ '' '' @ emp_name e)"
proof (intro conjI)
  show "list_animals (foldl add_animal (Zoo_init now n) as)
       = join NL (map (\<lambda>x. species x @ '' '' @ name x) as)"
    by (simp add: list_animals_def animals_foldl_add_animal Zoo_init_def)
  show "animal_sounds (foldl add_animal (Zoo_init now n) as) = join NL (map make_sound as)"
    by (simp add: animal_sounds_def animals_foldl_add_animal Zoo_init_def)
  show "list_employees (foldl add_employee (Zoo_init now n) es)
       = join NL (map (\<lambda>x. employee_class_name (role x) @ '' '' @ emp_name x) es)"
    by (simp add: list_employees_def employees_foldl_add_employee Zoo_init_def)
  show "list_animals (add_animal z a)
       = (if animals z = [] then species a @ '' '' @ name a
          else list_animals z @ NL @ species a @ '' '' @ name a)"
    by (simp add: list_animals_def add_animal_def join_snoc)
  show "animal_sounds (add_animal z a)
       = (if animals z = [] then make_sound a else animal_sounds z @ NL @ make_sound a)"
    by (simp add: animal_sounds_def add_animal_def join_snoc)
  show "list_employees (add_employee z e)
       = (if employees z = [] then employee_class_name (role e) @ '' '' @ emp_name e
          else list_employees z @ NL @ employee_class_name (role e) @ '' '' @ emp_name e)"
    by (simp add: list_employees_def add_employee_def join_snoc)
qed (simp_all add: add_animal_def add_employee_def list_animals_def animal_sounds_def
       list_employees_def)

theorem listings_follow_insertion_order_witness:
  "list_animals (foldl add_animal (Zoo_init ''2024-05-01'' ''Central Zoo'')
      [Bird_init ''Eddie'' 5 ''Eagle'' 2.1, Mammal_init ''Leo'' 8 ''Lion'' ''golden'',
       Reptile_init ''Sid'' 3 ''Python'' False])
     = ''Eagle Eddie'' @ [CHR 0x0A] @ ''Lion Leo'' @ [CHR 0x0A] @ ''Python Sid''
   \<and> animal_sounds (foldl add_animal (Zoo_init ''2024-05-01'' ''Central Zoo'')
      [Bird_init ''Eddie'' 5 ''Eagle'' 2.1, Mammal_init ''Leo'' 8 ''Lion'' ''golden'',
       Reptile_init ''Sid'' 3 ''Python'' False])
     = ''Eddie chirps: Tweet tweet!'' @ [CHR 0x0A] @ ''Leo roars: Roar!'' @ [CHR 0x0A]
       @ ''Sid hisses: Hiss!''
   \<and> list_employees (foldl add_employee (Zoo_init ''2024-05-01'' ''Central Zoo'')
      [ZooKeeper_init ''John'' ''ZK001'' ''Large mammals'',
       Veterinarian_init ''Dr. Smith'' ''VET001'' ''Avian medicine''])
     = ''ZooKeeper John'' @ [CHR 0x0A] @ ''Veterinarian Dr. Smith''"
  using listings_follow_insertion_order
          [of "Zoo_init ''2024-05-01'' ''Central Zoo''" "Bird_init ''Eddie'' 5 ''Eagle'' 2.1"
              "ZooKeeper_init ''John'' ''ZK001'' ''Large mammals''" "''2024-05-01''" "''Central Zoo''"
              "[Bird_init ''Eddie'' 5 ''Eagle'' 2.1, Mammal_init ''Leo'' 8 ''Lion'' ''golden'',
                Reptile_init ''Sid'' 3 ''Python'' False]"
              "[ZooKeeper_init ''John'' ''ZK001'' ''Large mammals'',
                Veterinarian_init ''Dr. Smith'' ''VET001'' ''Avian medicine'']"]
  by (simp add: NL_def make_sound_def Zoo_init_def Bird_init_def Mammal_init_def Reptile_init_def
                Animal_init_def ZooKeeper_init_def Veterinarian_init_def Employee_init_def)

section \<open>Persistence: round trip and the clock\<close>

text \<open>
  C1. For every zoo, whatever its animals (any sequence of birds, mammals and
  reptiles, with any health and hunger) and its employees (any sequence of
  zookeepers and veterinarians), loading the file that \<open>save_to_file\<close> wrote
  returns that same zoo: the same name, the \<open>founded_date\<close> that was saved and
  not the date of the load, and the same animals and employees, variant by
  variant and field by field, in the same order.
\<close>

theorem save_load_round_trip:
  "fst (load_from_file now filename (save_to_file z filename fs)) = Inr (Typed z)"
  by (simp add: load_from_file_result files_save_to_file zoo_from_data_zoo_data)

theorem save_load_round_trip_witness:
  "fst (load_from_file ''2026-01-01'' ''zoo_state.json''
         (save_to_file
            \<lparr>zoo_name = ''Central Zoo'',
             animals = [(Bird_init ''Eddie'' 5 ''Eagle'' 2.1)\<lparr>health := 85, hunger := 10\<rparr>,
                        Mammal_init ''Leo'' 8 ''Lion'' ''golden'',
                        (Reptile_init ''Sid'' 3 ''Python'' False)\<lparr>health := 0\<rparr>],
             employees = [ZooKeeper_init ''John'' ''ZK001'' ''Large mammals'',
                          Veterinarian_init ''Dr. Smith'' ''VET001'' ''Avian medicine''],
             founded_date = ''2024-05-01''\<rparr>
            ''zoo_state.json'' \<lparr>files = Map.empty, handles = []\<rparr>))
     = Inr (Typed
            \<lparr>zoo_name = ''Central Zoo'',
             animals = [\<lparr>name = ''Eddie'', age = 5, species = ''Eagle'', health = 85, hunger = 10,
                         cls = Bird 2.1\<rparr>,
                        \<lparr>name = ''Leo'', age = 8, species = ''Lion'', health = 100, hunger = 0,
                         cls = Mammal ''golden''\<rparr>,
                        \<lparr>name = ''Sid'', age = 3, species = ''Python'', health = 0, hunger = 0,
                         cls = Reptile False\<rparr>],
             employees = [\<lparr>emp_name = ''John'', id_number = ''ZK001'',
                           specialization = ''Large mammals'', role = ZooKeeper\<rparr>,
                          \<lparr>emp_name = ''Dr. Smith'', id_number = ''VET001'',
                           specialization = ''Avian medicine'', role = Veterinarian\<rparr>],
             founded_date = ''2024-05-01''\<rparr>)"
  using save_load_round_trip
          [of "''2026-01-01''" "''zoo_state.json''"
              "\<lparr>zoo_name = ''Central Zoo'',
             animals = [(Bird_init ''Eddie'' 5 ''Eagle'' 2.1)\<lparr>health := 85, hunger := 10\<rparr>,
                        Mammal_init ''Leo'' 8 ''Lion'' ''golden'',
                        (Reptile_init ''Sid'' 3 ''Python'' False)\<lparr>health := 0\<rparr>],
             employees = [ZooKeeper_init ''John'' ''ZK001'' ''Large mammals'',
                          Veterinarian_init ''Dr. Smith'' ''VET001'' ''Avian medicine''],
             founded_date = ''2024-05-01''\<rparr>" "\<lparr>files = Map.empty, handles = []\<rparr>"]
  by (simp add: Bird_init_def Mammal_init_def Reptile_init_def Animal_init_def
        ZooKeeper_init_def Veterinarian_init_def Employee_init_def)

text \<open>
  C10. What \<open>load_from_file\<close> returns depends on the file's content alone: it
  is the same for any two readings of the clock (and whatever files happen to
  be open). When it returns a zoo, the zoo's name and \<open>founded_date\<close> are the
  strings stored in the document, so the date that \<open>Zoo_init\<close> took from the
  clock is gone.
\<close>

theorem load_independent_of_clock:
  "fst (load_from_file now1 filename fs) = fst (load_from_file now2 filename (fs\<lparr>handles := hs\<rparr>))
   \<and> (fst (load_from_file now1 filename fs) = Inr (Typed z) \<longrightarrow>
        (\<exists>data. files fs filename = Some (Doc data)
           \<and> getitem data ''name'' = Inr (JStr (zoo_name z))
           \<and> getitem data ''founded_date'' = Inr (JStr (founded_date z))))"
proof (intro conjI impI)
  show "fst (load_from_file now1 filename fs) = fst (load_from_file now2 filename (fs\<lparr>handles := hs\<rparr>))"
    by (simp add: load_from_file_result zoo_from_data_clock [of now1 _ now2]
             split: option.splits content.splits)
next
  assume "fst (load_from_file now1 filename fs) = Inr (Typed z)"
  then obtain data where "files fs filename = Some (Doc data)" "zoo_from_data now1 data = Inr (Typed z)"
    by (auto simp: load_from_file_result split: option.splits content.splits)
  then show "\<exists>data. files fs filename = Some (Doc data)
           \<and> getitem data ''name'' = Inr (JStr (zoo_name z))
           \<and> getitem data ''founded_date'' = Inr (JStr (founded_date z))"
    using zoo_from_data_Typed by blast
qed

theorem load_independent_of_clock_witness:
  "fst (load_from_file ''2026-01-01'' ''zoo_state.json''
          \<lparr>files = [''zoo_state.json'' \<mapsto> Doc (JObj
             [(''name'', JStr ''Central Zoo''), (''founded_date'', JStr ''2024-05-01''),
              (''animals'', JList []), (''employees'', JList [])])],
           handles = []\<rparr>)
     = fst (load_from_file ''2031-12-31'' ''zoo_state.json''
          \<lparr>files = [''zoo_state.json'' \<mapsto> Doc (JObj
             [(''name'', JStr ''Central Zoo''), (''founded_date'', JStr ''2024-05-01''),
              (''animals'', JList []), (''employees'', JList [])])],
           handles = [''other.json'']\<rparr>)
   \<and> fst (load_from_file ''2026-01-01'' ''zoo_state.json''
          \<lparr>files = [''zoo_state.json'' \<mapsto> Doc (JObj
             [(''name'', JStr ''Central Zoo''), (''founded_date'', JStr ''2024-05-01''),
              (''animals'', JList []), (''employees'', JList [])])],
           handles = []\<rparr>)
     = Inr (Typed \<lparr>zoo_name = ''Central Zoo'', animals = [], employees = [],
                   founded_date = ''2024-05-01''\<rparr>)"
  using load_independent_of_clock
          [of "''2026-01-01''" "''zoo_state.json''"
              "\<lparr>files = [''zoo_state.json'' \<mapsto> Doc (JObj
                 [(''name'', JStr ''Central Zoo''), (''founded_date'', JStr ''2024-05-01''),
                  (''animals'', JList []), (''employees'', JList [])])],
               handles = []\<rparr>"
              "''2031-12-31''" "[''other.json'']"
              "\<lparr>zoo_name = ''Central Zoo'', animals = [], employees = [],
                   founded_date = ''2024-05-01''\<rparr>"]
  by (simp add: load_from_file_result zoo_from_data_def and_then_def Zoo_init_def)

section \<open>Persistence: unknown tags and missing fields\<close>

text \<open>
  C5. Take a document with a name, a founding date, a list of animal records
  and a list of employee records, in which every record either is valid (known
  tag, every key of that tag present with a value of its type) or carries a tag
  that is none of the known ones. Loading it succeeds; the loaded collections
  are, in document order, exactly the valid records (each loaded object
  serialises to entries that its record holds), nothing standing in for a
  skipped record; so each collection has as many elements as the document has
  records, less the records with an unknown tag.
\<close>

theorem unknown_tags_are_skipped:
  assumes "files fs filename = Some (Doc data)"
    and "getitem data ''name'' = Inr (JStr n)"
    and "getitem data ''founded_date'' = Inr (JStr d)"
    and "getitem data ''animals'' = Inr (JList recs)"
    and "getitem data ''employees'' = Inr (JList erecs)"
    and "\<forall>r\<in>set recs. valid_animal_record r \<or> unknown_tag animal_tags r"
    and "\<forall>r\<in>set erecs. valid_employee_record r \<or> unknown_tag employee_tags r"
  shows "\<exists>z. fst (load_from_file now filename fs) = Inr (Typed z)
           \<and> zoo_name z = n \<and> founded_date z = d
           \<and> list_all2 (\<lambda>a r. holds_fields (animal_to_dict a) r) (animals z)
                (filter valid_animal_record recs)
           \<and> list_all2 (\<lambda>e r. holds_fields (employee_to_dict e) r) (employees z)
                (filter valid_employee_record erecs)
           \<and> length (animals z) = length recs - length (filter (unknown_tag animal_tags) recs)
           \<and> length (employees z) = length erecs - length (filter (unknown_tag employee_tags) erecs)"
proof -
  let ?z0 = "\<lparr>zoo_name = n, animals = [], employees = [], founded_date = d\<rparr>"
  from load_animals_valid_or_unknown [OF assms(6), of ?z0] obtain as where
    as: "load_animals recs (Typed ?z0) = Inr (Typed (?z0\<lparr>animals := as\<rparr>))"
        "list_all2 (\<lambda>a r. holds_fields (animal_to_dict a) r) as (filter valid_animal_record recs)"
    by auto
  from load_employees_valid_or_unknown [OF assms(7), of "?z0\<lparr>animals := as\<rparr>"] obtain es where
    es: "load_employees erecs (Typed (?z0\<lparr>animals := as\<rparr>))
           = Inr (Typed (?z0\<lparr>animals := as, employees := es\<rparr>))"
        "list_all2 (\<lambda>e r. holds_fields (employee_to_dict e) r) es (filter valid_employee_record erecs)"
    by auto
  have "zoo_from_data now data = Inr (Typed (?z0\<lparr>animals := as, employees := es\<rparr>))"
    using assms(2-5) as(1) es(1)
    by (simp add: zoo_from_data_def and_then_def Zoo_init_def)
  with assms(1) have
    load: "fst (load_from_file now filename fs) = Inr (Typed (?z0\<lparr>animals := as, employees := es\<rparr>))"
    by (simp add: load_from_file_result)
  have "length as = length recs - length (filter (unknown_tag animal_tags) recs)"
    using list_all2_lengthD [OF as(2)]
      length_filter_resolved [OF assms(6) valid_animal_not_unknown] by simp
  moreover have "length es = length erecs - length (filter (unknown_tag employee_tags) erecs)"
    using list_all2_lengthD [OF es(2)]
      length_filter_resolved [OF assms(7) valid_employee_not_unknown] by simp
  ultimately show ?thesis using load as(2) es(2) by simp
qed

theorem unknown_tags_are_skipped_witness:
  "\<exists>z. fst (load_from_file ''2026-01-01'' ''zoo_state.json''
            \<lparr>files = [''zoo_state.json'' \<mapsto> Doc (JObj
               [(''name'', JStr ''Central Zoo''),
                (''founded_date'', JStr ''2024-05-01''),
                (''animals'', JList
                   [JObj [(''type'', JStr ''Bird''), (''name'', JStr ''Eddie''), (''age'', JInt 5),
                          (''species'', JStr ''Eagle''), (''health'', JInt 85), (''hunger'', JInt 10),
                          (''wingspan'', JFloat 2.1)],
                    JObj [(''type'', JStr ''Fish''), (''name'', JStr ''Nemo'')],
                    JObj [(''type'', JStr ''Mammal''), (''name'', JStr ''Leo''), (''age'', JInt 8),
                          (''species'', JStr ''Lion''), (''health'', JInt 100), (''hunger'', JInt 0),
                          (''fur_color'', JStr ''golden'')]]),
                (''employees'', JList
                   [JObj [(''type'', JStr ''Janitor''), (''name'', JStr ''Bob'')],
                    JObj [(''type'', JStr ''ZooKeeper''), (''name'', JStr ''John''),
                          (''id_number'', JStr ''ZK001''), (''specialization'', JStr ''Large mammals'')]])])],
             handles = []\<rparr>) = Inr (Typed z)
        \<and> zoo_name z = ''Central Zoo'' \<and> founded_date z = ''2024-05-01''
        \<and> length (animals z) = 2 \<and> length (employees z) = 1"
proof -
  let ?recs = "[JObj [(''type'', JStr ''Bird''), (''name'', JStr ''Eddie''), (''age'', JInt 5),
                          (''species'', JStr ''Eagle''), (''health'', JInt 85), (''hunger'', JInt 10),
                          (''wingspan'', JFloat 2.1)],
                    JObj [(''type'', JStr ''Fish''), (''name'', JStr ''Nemo'')],
                    JObj [(''type'', JStr ''Mammal''), (''name'', JStr ''Leo''), (''age'', JInt 8),
                          (''species'', JStr ''Lion''), (''health'', JInt 100), (''hunger'', JInt 0),
                          (''fur_color'', JStr ''golden'')]]"
  let ?erecs = "[JObj [(''type'', JStr ''Janitor''), (''name'', JStr ''Bob'')],
                    JObj [(''type'', JStr ''ZooKeeper''), (''name'', JStr ''John''),
                          (''id_number'', JStr ''ZK001''), (''specialization'', JStr ''Large mammals'')]]"
  let ?data = "JObj [(''name'', JStr ''Central Zoo''), (''founded_date'', JStr ''2024-05-01''),
                (''animals'', JList ?recs), (''employees'', JList ?erecs)]"
  let ?fs = "\<lparr>files = [''zoo_state.json'' \<mapsto> Doc ?data], handles = []\<rparr>"
  have h1: "files ?fs ''zoo_state.json'' = Some (Doc ?data)" by simp
  have h2: "getitem ?data ''name'' = Inr (JStr ''Central Zoo'')" by simp
  have h3: "getitem ?data ''founded_date'' = Inr (JStr ''2024-05-01'')" by simp
  have h4: "getitem ?data ''animals'' = Inr (JList ?recs)" by simp
  have h5: "getitem ?data ''employees'' = Inr (JList ?erecs)" by simp
  have h6: "\<forall>r\<in>set ?recs. valid_animal_record r \<or> unknown_tag animal_tags r"
    by (simp add: valid_animal_record_def field_is_def unknown_tag_def animal_tags_def)
  have h7: "\<forall>r\<in>set ?erecs. valid_employee_record r \<or> unknown_tag employee_tags r"
    by (simp add: valid_employee_record_def field_is_def unknown_tag_def employee_tags_def)
  from unknown_tags_are_skipped [OF h1 h2 h3 h4 h5 h6 h7, of "''2026-01-01''"]
  obtain z where
    "fst (load_from_file ''2026-01-01'' ''zoo_state.json'' ?fs) = Inr (Typed z)"
    "zoo_name z = ''Central Zoo''" "founded_date z = ''2024-05-01''"
    "length (animals z) = length ?recs - length (filter (unknown_tag animal_tags) ?recs)"
    "length (employees z) = length ?erecs - length (filter (unknown_tag employee_tags) ?erecs)"
    by blast
  then have
    "fst (load_from_file ''2026-01-01'' ''zoo_state.json'' ?fs) = Inr (Typed z)
     \<and> zoo_name z = ''Central Zoo'' \<and> founded_date z = ''2024-05-01''
     \<and> length (animals z) = 2 \<and> length (employees z) = 1"
    by (simp add: unknown_tag_def animal_tags_def employee_tags_def)
  then show ?thesis ..
qed

text \<open>
  C6. A record whose tag is a known one and that lacks a key read under that
  tag raises \<^verbatim>\<open>KeyError\<close> for a key it lacks, in either loop; a record is
  skipped only when its tag is none of the known ones; and a document whose
  animal list or employee list contains such a record with a missing key does
  not load: \<open>load_from_file\<close> returns an exception, never a zoo.
\<close>

theorem missing_field_fails_load:
  "(malformed_animal_record r \<longrightarrow> (\<exists>k. missing_key r k \<and> load_animal r = Inl (KeyError k)))
   \<and> (malformed_employee_record r \<longrightarrow> (\<exists>k. missing_key r k \<and> load_employee r = Inl (KeyError k)))
   \<and> (load_animal r = Inr None \<longrightarrow> unknown_tag animal_tags r)
   \<and> (load_employee r = Inr None \<longrightarrow> unknown_tag employee_tags r)
   \<and> (files fs filename = Some (Doc data) \<and> r \<in> set recs
        \<and> (getitem data ''animals'' = Inr (JList recs) \<and> malformed_animal_record r
           \<or> getitem data ''employees'' = Inr (JList recs) \<and> malformed_employee_record r)
       \<longrightarrow> (\<exists>e. fst (load_from_file now filename fs) = Inl e))"
proof (intro conjI impI)
  assume "malformed_animal_record r"
  then show "\<exists>k. missing_key r k \<and> load_animal r = Inl (KeyError k)"
    by (rule load_animal_malformed)
next
  assume "malformed_employee_record r"
  then show "\<exists>k. missing_key r k \<and> load_employee r = Inl (KeyError k)"
    by (rule load_employee_malformed)
next
  assume "load_animal r = Inr None"
  then show "unknown_tag animal_tags r" by (rule load_animal_skip)
next
  assume "load_employee r = Inr None"
  then show "unknown_tag employee_tags r" by (rule load_employee_skip)
next
  assume a: "files fs filename = Some (Doc data) \<and> r \<in> set recs
        \<and> (getitem data ''animals'' = Inr (JList recs) \<and> malformed_animal_record r
           \<or> getitem data ''employees'' = Inr (JList recs) \<and> malformed_employee_record r)"
  then consider
      "getitem data ''animals'' = Inr (JList recs)" "malformed_animal_record r"
    | "getitem data ''employees'' = Inr (JList recs)" "malformed_employee_record r"
    by blast
  then have "\<exists>e. zoo_from_data now data = Inl e"
  proof cases
    case 1
    from load_animal_malformed [OF 1(2)] obtain k where "load_animal r = Inl (KeyError k)"
      by blast
    with 1(1) a show ?thesis using zoo_from_data_bad_animal by blast
  next
    case 2
    from load_employee_malformed [OF 2(2)] obtain k where "load_employee r = Inl (KeyError k)"
      by blast
    with 2(1) a show ?thesis using zoo_from_data_bad_employee by blast
  qed
  with a show "\<exists>e. fst (load_from_file now filename fs) = Inl e"
    by (simp add: load_from_file_result)
qed

theorem missing_field_fails_load_witness:
  "load_animal (JObj [(''type'', JStr ''Bird''), (''name'', JStr ''Eddie''), (''age'', JInt 5),
                      (''species'', JStr ''Eagle''), (''health'', JInt 85), (''hunger'', JInt 10)])
     = Inl (KeyError ''wingspan'')
   \<and> load_employee (JObj [(''type'', JStr ''ZooKeeper''), (''name'', JStr ''John''),
                          (''specialization'', JStr ''Large mammals'')])
     = Inl (KeyError ''id_number'')
   \<and> fst (load_from_file ''2026-01-01'' ''zoo_state.json''
          \<lparr>files = [''zoo_state.json'' \<mapsto> Doc (JObj
             [(''name'', JStr ''Central Zoo''), (''founded_date'', JStr ''2024-05-01''),
              (''animals'', JList
                 [JObj [(''type'', JStr ''Fish''), (''name'', JStr ''Nemo'')],
                  JObj [(''type'', JStr ''Bird''), (''name'', JStr ''Eddie''), (''age'', JInt 5),
                      (''species'', JStr ''Eagle''), (''health'', JInt 85), (''hunger'', JInt 10)]]),
              (''employees'', JList [])])],
           handles = []\<rparr>)
     = Inl (KeyError ''wingspan'')"
proof -
  let ?r = "JObj [(''type'', JStr ''Bird''), (''name'', JStr ''Eddie''), (''age'', JInt 5),
                      (''species'', JStr ''Eagle''), (''health'', JInt 85), (''hunger'', JInt 10)]"
  let ?e = "JObj [(''type'', JStr ''ZooKeeper''), (''name'', JStr ''John''),
                          (''specialization'', JStr ''Large mammals'')]"
  let ?recs = "[JObj [(''type'', JStr ''Fish''), (''name'', JStr ''Nemo'')], ?r]"
  let ?data = "JObj [(''name'', JStr ''Central Zoo''), (''founded_date'', JStr ''2024-05-01''),
              (''animals'', JList ?recs), (''employees'', JList [])]"
  let ?fs = "\<lparr>files = [''zoo_state.json'' \<mapsto> Doc ?data], handles = []\<rparr>"
  have r: "malformed_animal_record ?r"
    by (simp add: malformed_animal_record_def animal_tags_def animal_keys_def missing_key_def)
  have e: "malformed_employee_record ?e"
    by (simp add: malformed_employee_record_def employee_tags_def employee_keys_def missing_key_def)
  have d: "files ?fs ''zoo_state.json'' = Some (Doc ?data) \<and> ?r \<in> set ?recs
        \<and> (getitem ?data ''animals'' = Inr (JList ?recs) \<and> malformed_animal_record ?r
           \<or> getitem ?data ''employees'' = Inr (JList ?recs) \<and> malformed_employee_record ?r)"
    using r by simp
  from missing_field_fails_load [of ?r ?fs "''zoo_state.json''" ?data ?recs "''2026-01-01''"] r d
  obtain k1 err where
    "missing_key ?r k1" "load_animal ?r = Inl (KeyError k1)"
    "fst (load_from_file ''2026-01-01'' ''zoo_state.json'' ?fs) = Inl err"
    by blast
  moreover from missing_field_fails_load [of ?e ?fs "''zoo_state.json''" ?data ?recs "''2026-01-01''"] e
  obtain k2 where "missing_key ?e k2" "load_employee ?e = Inl (KeyError k2)"
    by blast
  ultimately show ?thesis
    by (simp (no_asm) add: load_animal_def construct_animal_def load_employee_def and_then_def
          load_from_file_result zoo_from_data_def)
qed

section \<open>File handles\<close>

text \<open>
  C9 says that both \<open>save_to_file\<close> and \<open>load_from_file\<close> hold the file as a
  scoped resource, closed on every exit path. \<open>load_from_file\<close> does: its
  \<^verbatim>\<open>with\<close> block closes the file when parsing succeeds, when parsing raises,
  and nothing is opened when the file is missing (\<open>load_from_file_handles\<close>).
  \<open>save_to_file\<close> does not: it opens the file inline and never closes it
  (\<open>handles_save_to_file\<close>). Saving an empty zoo on a file system with no open
  file leaves \<^verbatim>\<open>zoo_state.json\<close> open, and it is still open after a load of
  the same file has opened and closed its own handle.
\<close>

theorem save_to_file_leaves_file_open:
  "handles (save_to_file (Zoo_init ''2024-05-01'' ''Central Zoo'') ''zoo_state.json''
              \<lparr>files = Map.empty, handles = []\<rparr>) = [''zoo_state.json'']
   \<and> handles (snd (load_from_file ''2026-01-01'' ''zoo_state.json''
                (save_to_file (Zoo_init ''2024-05-01'' ''Central Zoo'') ''zoo_state.json''
                   \<lparr>files = Map.empty, handles = []\<rparr>))) = [''zoo_state.json'']
   \<and> handles (snd (load_from_file ''2026-01-01'' ''zoo_state.json''
                \<lparr>files = [''zoo_state.json'' \<mapsto> Garbage], handles = []\<rparr>)) = []
   \<and> handles (snd (load_from_file ''2026-01-01'' ''zoo_state.json''
                \<lparr>files = Map.empty, handles = []\<rparr>)) = []"
  by (simp add: handles_save_to_file load_from_file_handles)

end
